theory Spec2Isabelle
  imports Main "HOL-Library.Word"
begin

section \<open>Auth service: data model\<close>

text \<open>
  The protobuf enums of the auth and enterprise clients. \<open>Scope\<close> is an \<open>int32\<close>
  enum that the server compares with \<open>\<le>\<close> and \<open><\<close>; it is kept numeric, with
  the four named values as constants, so that every comparison of the source is the
  integer comparison it is in Go.
\<close>

datatype UserType = User_HUMAN | User_PIPELINE

datatype State = State_NONE | State_ACTIVE | State_EXPIRED

type_synonym Scope = int

abbreviation Scope_NONE :: Scope where "Scope_NONE \<equiv> 0"
abbreviation Scope_READER :: Scope where "Scope_READER \<equiv> 1"
abbreviation Scope_WRITER :: Scope where "Scope_WRITER \<equiv> 2"
abbreviation Scope_OWNER :: Scope where "Scope_OWNER \<equiv> 3"

record User =
  Username :: string
  Type :: UserType

text \<open>
  \<open>ACL.Entries\<close> is a Go map from username to scope. It is an association list with
  the map operations of the source: indexing gives the zero value for a missing key,
  assignment replaces, \<open>delete\<close> removes, \<open>len\<close> is tested against 0 only. A nil
  map and an empty map are both \<open>[]\<close>; they differ in Go only for an assignment,
  which panics on a nil map, and \<open>SetScope\<close> is the one place that assigns.
\<close>

record ACL =
  Entries :: "(string \<times> Scope) list"

definition Entries_index :: "ACL \<Rightarrow> string \<Rightarrow> Scope" where
  "Entries_index acl u = (case map_of (Entries acl) u of None \<Rightarrow> Scope_NONE | Some s \<Rightarrow> s)"

fun Entries_assign :: "(string \<times> Scope) list \<Rightarrow> string \<Rightarrow> Scope \<Rightarrow> (string \<times> Scope) list" where
  "Entries_assign [] k v = [(k, v)]"
| "Entries_assign ((k', v') # es) k v =
     (if k' = k then (k, v) # es else (k', v') # Entries_assign es k v)"

definition Entries_delete :: "(string \<times> Scope) list \<Rightarrow> string \<Rightarrow> (string \<times> Scope) list" where
  "Entries_delete es k = filter (\<lambda>e. fst e \<noteq> k) es"

text \<open>A row of the tokens collection: the user, and the TTL in seconds of \<open>PutTTL\<close>.\<close>

record token_row =
  row_user :: User
  row_ttl :: "int option"

text \<open>
  The three etcd collections, and the server with its in-memory admin cache. The cache
  is filled by \<open>watchAdmins\<close> from the admins collection and is a separate field: the
  request handlers read the cache and write the collection.
\<close>

record store =
  tokens :: "string \<rightharpoonup> token_row"
  acls :: "string \<rightharpoonup> ACL"
  admins :: "string \<rightharpoonup> bool"

record apiServer =
  adminCache :: "string set"
  etcd :: store

datatype error =
    NotActivatedError
  | NotAuthorizedError string Scope
  | ErrNotFound
  | Errorf string
  | Wrapf string error

text \<open>
  \<open>Wrapf p e\<close> stands for \<open>fmt.Errorf(p + ": %s", e.Error())\<close>.

  Everything the server asks of the outside world is a field of \<open>env\<close>: the error of
  an etcd round trip while the store is unreachable, the error of constructing the pachd
  client, the reply of the enterprise service, the error of \<open>InspectRepo\<close> (its
  message; \<open>None\<close> when the repo exists), the value of the environment variable
  \<open>PACHYDERM_AUTHENTICATION_DISABLED_FOR_TESTING\<close>, the reply of GitHub for an access
  token, the next value of \<open>uuid.NewWithoutDashes\<close>, and the hex SHA-256 digest.
\<close>

record env =
  etcd_err :: "string option"
  pach_client_err :: "string option"
  Enterprise_GetState :: "string + State"
  InspectRepo :: "string \<Rightarrow> string option"
  Getenv_DisableAuthentication :: string
  github_Users_Get :: "string \<Rightarrow> string + string"
  uuid_NewWithoutDashes :: string
  sha256_hex :: "string \<Rightarrow> string"

text \<open>
  The external side effects a piece of code has, in order: the remote calls to the
  enterprise service, to pachd's \<open>InspectRepo\<close> and to GitHub, and the lines
  written to the request logger (the request line of \<open>LogReq\<close>, the response line
  of \<open>LogResp\<close> with its level). Reads and writes of the etcd collections are the
  store's own business and are not listed.
\<close>

datatype Level = DebugLevel | InfoLevel | ErrorLevel

datatype effect =
    RPC_Enterprise_GetState
  | RPC_InspectRepo string
  | RPC_GitHub_Users_Get string
  | Log_request
  | Log_response Level

text \<open>
  The request context: the values stored in the gRPC metadata under
  \<open>ContextTokenKey\<close>, or \<open>None\<close> when the context carries no metadata.
\<close>

type_synonym ctx = "string list option"

definition defaultTokenTTLSecs :: int where
  "defaultTokenTTLSecs = 14 * 24 * 60 * 60"

definition magicUser :: string where
  "magicUser = ''GZD4jKDGcirJyWQt6HtK4hhRD6faOofP1mng34xNZsI''"

definition epsilon :: bool where
  "epsilon = True"

section \<open>Auth service: helpers\<close>

definition hashToken :: "env \<Rightarrow> string \<Rightarrow> string" where
  "hashToken e token = sha256_hex e token"

text \<open>\<open>Get\<close> of a collection: the store's error, \<open>ErrNotFound\<close>, or the row.\<close>

definition col_Get :: "env \<Rightarrow> (string \<rightharpoonup> 'a) \<Rightarrow> string \<Rightarrow> error + 'a" where
  "col_Get e m k =
     (case etcd_err e of
        Some msg \<Rightarrow> Inl (Errorf msg)
      | None \<Rightarrow> (case m k of None \<Rightarrow> Inl ErrNotFound | Some v \<Rightarrow> Inr v))"

text \<open>
  \<open>col.NewSTM\<close>: the callback runs on the store and returns an error or the store
  with its writes; the writes become visible only when the callback returned no error
  and the commit went through. The callback also reports the external side effects
  it had.
\<close>

type_synonym txn = "store \<Rightarrow> effect list \<times> (error + store)"

definition NewSTM :: "env \<Rightarrow> txn \<Rightarrow> store \<Rightarrow> (error + unit) \<times> store" where
  "NewSTM e f st =
     (case snd (f st) of
        Inl err \<Rightarrow> (Inl err, st)
      | Inr st' \<Rightarrow>
          (case etcd_err e of
             Some msg \<Rightarrow> (Inl (Errorf msg), st)
           | None \<Rightarrow> (Inr (), st')))"

definition getPachClient :: "env \<Rightarrow> error + unit" where
  "getPachClient e =
     (case pach_client_err e of Some msg \<Rightarrow> Inl (Errorf msg) | None \<Rightarrow> Inr ())"

definition getEnterpriseTokenState :: "env \<Rightarrow> effect list \<times> (error + State)" where
  "getEnterpriseTokenState e =
     (case getPachClient e of
        Inl err \<Rightarrow>
          ([], Inl (Wrapf ''could not get Pachd client to determine Enterprise status'' err))
      | Inr _ \<Rightarrow>
          (case Enterprise_GetState e of
             Inl msg \<Rightarrow>
               ([RPC_Enterprise_GetState],
                Inl (Wrapf ''could not get Enterprise status'' (Errorf msg)))
           | Inr state \<Rightarrow> ([RPC_Enterprise_GetState], Inr state)))"

definition isActivated :: "apiServer \<Rightarrow> bool" where
  "isActivated a = (adminCache a \<noteq> {})"

definition isAdmin :: "apiServer \<Rightarrow> string \<Rightarrow> bool" where
  "isAdmin a user = (if user = magicUser then True else user \<in> adminCache a)"

definition getAuthenticatedUser :: "env \<Rightarrow> apiServer \<Rightarrow> ctx \<Rightarrow> error + User" where
  "getAuthenticatedUser e a c =
     (case c of
        None \<Rightarrow> Inl (Errorf ''no authentication metadata found in context'')
      | Some md \<Rightarrow>
          (if length md \<noteq> 1 then Inl (Errorf ''auth token not found in context'')
           else
             (case col_Get e (tokens (etcd a)) (hashToken e (md ! 0)) of
                Inl ErrNotFound \<Rightarrow> Inl (Errorf ''token not found'')
              | Inl err \<Rightarrow> Inl (Wrapf ''error getting token'' err)
              | Inr row \<Rightarrow> Inr (row_user row))))"

section \<open>Auth service: Activate\<close>

record ActivateRequest =
  act_Admins :: "string list"

definition Activate_txn :: "ActivateRequest \<Rightarrow> txn" where
  "Activate_txn req st =
     ([], Inr (st\<lparr>admins := fold (\<lambda>user m. m(user \<mapsto> epsilon)) (act_Admins req) (admins st)\<rparr>))"

definition Activate :: "env \<Rightarrow> apiServer \<Rightarrow> ctx \<Rightarrow> ActivateRequest \<Rightarrow> (error + unit) \<times> apiServer" where
  "Activate e a c req =
     (case snd (getEnterpriseTokenState e) of
        Inl err \<Rightarrow> (Inl (Wrapf ''error confirming Pachyderm Enterprise token'' err), a)
      | Inr state \<Rightarrow>
          (if state \<noteq> State_ACTIVE then
             (Inl (Errorf (''Pachyderm Enterprise is not active in this '' @
                           ''cluster, and the Pachyderm auth API is an Enterprise-level feature'')), a)
           else if isActivated a then (Inl (Errorf ''already activated''), a)
           else
             (case NewSTM e (Activate_txn req) (etcd a) of
                (Inl err, st) \<Rightarrow> (Inl err, a\<lparr>etcd := st\<rparr>)
              | (Inr _, st) \<Rightarrow> (Inr (), a\<lparr>etcd := st\<rparr>))))"

section \<open>Auth service: Deactivate and ModifyAdmins\<close>

definition Deactivate_txn :: txn where
  "Deactivate_txn st = ([], Inr (st\<lparr>acls := Map.empty, tokens := Map.empty, admins := Map.empty\<rparr>))"

definition Deactivate :: "env \<Rightarrow> apiServer \<Rightarrow> ctx \<Rightarrow> (error + unit) \<times> apiServer" where
  "Deactivate e a c =
     (if \<not> isActivated a then (Inl NotActivatedError, a)
      else
        (case getAuthenticatedUser e a c of
           Inl err \<Rightarrow> (Inl err, a)
         | Inr user \<Rightarrow>
             (if \<not> isAdmin a (Username user) then
                (Inl (Errorf ''must be an admin to disable cluster auth''), a)
              else
                (case NewSTM e Deactivate_txn (etcd a) of
                   (Inl err, st) \<Rightarrow> (Inl err, a\<lparr>etcd := st\<rparr>)
                 | (Inr _, st) \<Rightarrow> (Inr (), a\<lparr>etcd := st\<rparr>)))))"

record ModifyAdminsRequest =
  mod_Add :: "string list"
  mod_Remove :: "string list"

definition validateModifyAdminsRequest :: "apiServer \<Rightarrow> ModifyAdminsRequest \<Rightarrow> error option" where
  "validateModifyAdminsRequest a req =
     (let m = adminCache a;
          m = fold (\<lambda>u m. insert u m) (mod_Add req) m;
          m = fold (\<lambda>u m. m - {u}) (mod_Remove req) m
      in if m = {} then
           Some (Errorf (''invalid request: cannot remove all cluster administrators '' @
                         ''while auth is active, to avoid unfixable cluster states''))
         else None)"

definition ModifyAdmins_txn :: "ModifyAdminsRequest \<Rightarrow> txn" where
  "ModifyAdmins_txn req st =
     (let m = admins st;
          m = fold (\<lambda>user m. m(user \<mapsto> epsilon)) (mod_Add req) m;
          m = fold (\<lambda>user m. m(user := None)) (mod_Remove req) m
      in ([], Inr (st\<lparr>admins := m\<rparr>)))"

definition ModifyAdmins ::
  "env \<Rightarrow> apiServer \<Rightarrow> ctx \<Rightarrow> ModifyAdminsRequest \<Rightarrow> (error + unit) \<times> apiServer" where
  "ModifyAdmins e a c req =
     (if \<not> isActivated a then (Inl NotActivatedError, a)
      else
        (case getAuthenticatedUser e a c of
           Inl err \<Rightarrow> (Inl err, a)
         | Inr user \<Rightarrow>
             (if \<not> isAdmin a (Username user) then
                (Inl (Errorf ''must be an admin to modify set of cluster admins''), a)
              else
                (case validateModifyAdminsRequest a req of
                   Some err \<Rightarrow> (Inl err, a)
                 | None \<Rightarrow>
                     (case NewSTM e (ModifyAdmins_txn req) (etcd a) of
                        (Inl err, st) \<Rightarrow> (Inl err, a\<lparr>etcd := st\<rparr>)
                      | (Inr _, st) \<Rightarrow> (Inr (), a\<lparr>etcd := st\<rparr>))))))"

section \<open>Auth service: Authenticate\<close>

record AuthenticateRequest =
  authn_GithubUsername :: string
  authn_GithubToken :: string

definition AccessTokenToUsername :: "env \<Rightarrow> string \<Rightarrow> error + string" where
  "AccessTokenToUsername e token =
     (case github_Users_Get e token of
        Inl msg \<Rightarrow> Inl (Wrapf ''error getting the authenticated user'' (Errorf msg))
      | Inr name \<Rightarrow> Inr name)"

text \<open>
  The block of \<open>Authenticate\<close> that determines the caller's username: in test mode
  the requested name, otherwise the name GitHub gives for the access token, which must
  agree with a requested name.
\<close>

definition Authenticate_username :: "env \<Rightarrow> AuthenticateRequest \<Rightarrow> error + string" where
  "Authenticate_username e req =
     (if Getenv_DisableAuthentication e = ''true'' then Inr (authn_GithubUsername req)
      else
        (case AccessTokenToUsername e (authn_GithubToken req) of
           Inl err \<Rightarrow> Inl err
         | Inr username \<Rightarrow>
             (if authn_GithubUsername req \<noteq> [] \<and> authn_GithubUsername req \<noteq> username then
                Inl (Errorf (''attempted to authenticate as %s, but Github '' @
                             ''token did not originate from that account''))
              else Inr username)))"

definition Authenticate_txn :: "env \<Rightarrow> string \<Rightarrow> string \<Rightarrow> txn" where
  "Authenticate_txn e username pachToken st =
     ([], Inr (st\<lparr>tokens := (tokens st)(hashToken e pachToken \<mapsto>
                  \<lparr>row_user = \<lparr>Username = username, Type = User_HUMAN\<rparr>,
                   row_ttl = Some defaultTokenTTLSecs\<rparr>)\<rparr>))"

definition Authenticate ::
  "env \<Rightarrow> apiServer \<Rightarrow> ctx \<Rightarrow> AuthenticateRequest \<Rightarrow> (error + string) \<times> apiServer" where
  "Authenticate e a c req =
     (if \<not> isActivated a then (Inl NotActivatedError, a)
      else if authn_GithubUsername req = magicUser then (Inl (Errorf ''invalid user''), a)
      else
        (case Authenticate_username e req of
           Inl err \<Rightarrow> (Inl err, a)
         | Inr username \<Rightarrow>
             (case snd (getEnterpriseTokenState e) of
                Inl err \<Rightarrow> (Inl (Wrapf ''error confirming Pachyderm Enterprise token'' err), a)
              | Inr state \<Rightarrow>
                  (if state \<noteq> State_ACTIVE \<and> \<not> isAdmin a username then
                     (Inl (Errorf (''Pachyderm Enterprise is not active in this '' @
                                   ''cluster (until Pachyderm Enterprise is re-activated or Pachyderm '' @
                                   ''auth is deactivated, only cluster admins can perform any operations)'')), a)
                   else
                     (let pachToken = uuid_NewWithoutDashes e in
                      case NewSTM e (Authenticate_txn e username pachToken) (etcd a) of
                        (Inl err, st) \<Rightarrow>
                          (Inl (Wrapf ''error storing auth token for user'' err), a\<lparr>etcd := st\<rparr>)
                      | (Inr _, st) \<Rightarrow> (Inr pachToken, a\<lparr>etcd := st\<rparr>))))))"

section \<open>Auth service: Authorize\<close>

record AuthorizeRequest =
  authz_Repo :: string
  authz_Scope :: Scope

definition Authorize ::
  "env \<Rightarrow> apiServer \<Rightarrow> ctx \<Rightarrow> AuthorizeRequest \<Rightarrow> (error + bool) \<times> apiServer" where
  "Authorize e a c req =
     (if \<not> isActivated a then (Inl NotActivatedError, a)
      else
        (case getAuthenticatedUser e a c of
           Inl err \<Rightarrow> (Inl err, a)
         | Inr user \<Rightarrow>
             (if isAdmin a (Username user) then (Inr True, a)
              else
                (case snd (getEnterpriseTokenState e) of
                   Inl err \<Rightarrow> (Inl (Wrapf ''error confirming Pachyderm Enterprise token'' err), a)
                 | Inr state \<Rightarrow>
                     (if state \<noteq> State_ACTIVE \<and> Type user \<noteq> User_PIPELINE then
                        (Inl (Errorf (''Pachyderm Enterprise is not active in this '' @
                                      ''cluster (only a cluster admin can authorize)'')), a)
                      else
                        (case col_Get e (acls (etcd a)) (authz_Repo req) of
                           Inl ErrNotFound \<Rightarrow> (Inr False, a)
                         | Inl err \<Rightarrow> (Inl (Wrapf ''error getting ACL for repo'' err), a)
                         | Inr acl \<Rightarrow>
                             (Inr (authz_Scope req \<le> Entries_index acl (Username user)), a)))))))"

section \<open>Auth service: SetScope and SetACL\<close>

record SetScopeRequest =
  ss_Username :: string
  ss_Repo :: string
  ss_Scope :: Scope

definition validateSetScopeRequest :: "SetScopeRequest \<Rightarrow> error option" where
  "validateSetScopeRequest req =
     (if ss_Username req = [] then Some (Errorf ''invalid request: must set username'')
      else if ss_Repo req = [] then Some (Errorf ''invalid request: must set repo'')
      else None)"

definition HasSuffix :: "string \<Rightarrow> string \<Rightarrow> bool" where
  "HasSuffix s suffix =
     (length suffix \<le> length s \<and> drop (length s - length suffix) s = suffix)"

text \<open>
  The closure inside the \<open>SetScope\<close> transaction that decides whether the caller may
  change the ACL it was given, with the remote calls it makes on the way.
\<close>

definition SetScope_authorized ::
  "env \<Rightarrow> apiServer \<Rightarrow> User \<Rightarrow> SetScopeRequest \<Rightarrow> ACL \<Rightarrow> effect list \<times> (error + bool)" where
  "SetScope_authorized e a user req acl =
     (if isAdmin a (Username user) then ([], Inr True)
      else
        (case getEnterpriseTokenState e of
           (calls, Inl err) \<Rightarrow>
             (calls, Inl (Wrapf ''error confirming Pachyderm Enterprise token'' err))
         | (calls, Inr state) \<Rightarrow>
             (if state \<noteq> State_ACTIVE then
                (calls, Inl (Errorf (''Pachyderm Enterprise is not active in this '' @
                                     ''cluster (only a cluster admin can set a scope)'')))
              else if length (Entries acl) > 0 then
                (if Entries_index acl (Username user) = Scope_OWNER then (calls, Inr True)
                 else (calls, Inr False))
              else
                (case getPachClient e of
                   Inl err \<Rightarrow> (calls, Inl (Wrapf ''could not check if repo exists'' err))
                 | Inr _ \<Rightarrow>
                     (let calls = calls @ [RPC_InspectRepo (ss_Repo req)] in
                      case InspectRepo e (ss_Repo req) of
                        None \<Rightarrow> (calls, Inr False)
                      | Some msg \<Rightarrow>
                          (if \<not> HasSuffix msg ''not found'' then
                             (calls, Inl (Wrapf ''could not inspect'' (Errorf msg)))
                           else if ss_Username req = Username user \<and> ss_Scope req = Scope_OWNER then
                             (calls, Inr True)
                           else (calls, Inl (Errorf ''repo not found''))))))))"

definition SetScope_txn :: "env \<Rightarrow> apiServer \<Rightarrow> User \<Rightarrow> SetScopeRequest \<Rightarrow> txn" where
  "SetScope_txn e a user req st =
     (let acl = (case col_Get e (acls st) (ss_Repo req) of
                   Inl err \<Rightarrow> \<lparr>Entries = []\<rparr>
                 | Inr acl \<Rightarrow> acl)
      in case SetScope_authorized e a user req acl of
           (calls, Inl err) \<Rightarrow> (calls, Inl err)
         | (calls, Inr authorized) \<Rightarrow>
             (if \<not> authorized then (calls, Inl (NotAuthorizedError (ss_Repo req) Scope_OWNER))
              else
                (let acl = (if ss_Scope req \<noteq> Scope_NONE
                            then acl\<lparr>Entries := Entries_assign (Entries acl) (ss_Username req) (ss_Scope req)\<rparr>
                            else acl\<lparr>Entries := Entries_delete (Entries acl) (ss_Username req)\<rparr>)
                 in (calls, Inr (st\<lparr>acls := (acls st)(ss_Repo req \<mapsto> acl)\<rparr>)))))"

definition SetScope ::
  "env \<Rightarrow> apiServer \<Rightarrow> ctx \<Rightarrow> SetScopeRequest \<Rightarrow> (error + unit) \<times> apiServer" where
  "SetScope e a c req =
     (if \<not> isActivated a then (Inl NotActivatedError, a)
      else
        (case validateSetScopeRequest req of
           Some err \<Rightarrow> (Inl err, a)
         | None \<Rightarrow>
             (case getAuthenticatedUser e a c of
                Inl err \<Rightarrow> (Inl err, a)
              | Inr user \<Rightarrow>
                  (case NewSTM e (SetScope_txn e a user req) (etcd a) of
                     (Inl err, st) \<Rightarrow> (Inl err, a\<lparr>etcd := st\<rparr>)
                   | (Inr _, st) \<Rightarrow> (Inr (), a\<lparr>etcd := st\<rparr>)))))"

record SetACLRequest =
  sa_Repo :: string
  sa_NewACL :: "ACL option"

definition SetACL_txn :: "env \<Rightarrow> apiServer \<Rightarrow> User \<Rightarrow> SetACLRequest \<Rightarrow> txn" where
  "SetACL_txn e a user req st =
     (let acl = (case col_Get e (acls st) (sa_Repo req) of
                   Inl err \<Rightarrow> \<lparr>Entries = []\<rparr>
                 | Inr acl \<Rightarrow> acl)
      in if \<not> isAdmin a (Username user) \<and> Entries_index acl (Username user) < Scope_OWNER then
           ([], Inl (NotAuthorizedError (sa_Repo req) Scope_OWNER))
         else
           (case sa_NewACL req of
              None \<Rightarrow> ([], Inr (st\<lparr>acls := (acls st)(sa_Repo req := None)\<rparr>))
            | Some newACL \<Rightarrow>
                (if length (Entries newACL) = 0 then
                   ([], Inr (st\<lparr>acls := (acls st)(sa_Repo req := None)\<rparr>))
                 else ([], Inr (st\<lparr>acls := (acls st)(sa_Repo req \<mapsto> newACL)\<rparr>)))))"

definition SetACL ::
  "env \<Rightarrow> apiServer \<Rightarrow> ctx \<Rightarrow> SetACLRequest \<Rightarrow> (error + unit) \<times> apiServer" where
  "SetACL e a c req =
     (if \<not> isActivated a then (Inl NotActivatedError, a)
      else if sa_Repo req = [] then
        (Inl (Errorf ''invalid request: must provide name of repo you want to modify''), a)
      else
        (case getAuthenticatedUser e a c of
           Inl err \<Rightarrow> (Inl err, a)
         | Inr user \<Rightarrow>
             (case snd (getEnterpriseTokenState e) of
                Inl err \<Rightarrow> (Inl (Wrapf ''error confirming Pachyderm Enterprise token'' err), a)
              | Inr state \<Rightarrow>
                  (if state \<noteq> State_ACTIVE \<and> \<not> isAdmin a (Username user) then
                     (Inl (Errorf (''Pachyderm Enterprise is not active in this '' @
                                   ''cluster (only a cluster admin can perform any operations)'')), a)
                   else
                     (case NewSTM e (SetACL_txn e a user req) (etcd a) of
                        (Inl err, st) \<Rightarrow> (Inl (Wrapf ''could not put new ACL'' err), a\<lparr>etcd := st\<rparr>)
                      | (Inr _, st) \<Rightarrow> (Inr (), a\<lparr>etcd := st\<rparr>))))))"

section \<open>Auth service: GetCapability and RevokeAuthToken\<close>

definition GetCapability_txn :: "env \<Rightarrow> string \<Rightarrow> User \<Rightarrow> txn" where
  "GetCapability_txn e capability user st =
     ([], Inr (st\<lparr>tokens := (tokens st)(hashToken e capability \<mapsto>
                  \<lparr>row_user = user, row_ttl = None\<rparr>)\<rparr>))"

definition GetCapability :: "env \<Rightarrow> apiServer \<Rightarrow> ctx \<Rightarrow> (error + string) \<times> apiServer" where
  "GetCapability e a c =
     (case (if \<not> isActivated a then Inr \<lparr>Username = magicUser, Type = User_HUMAN\<rparr>
            else getAuthenticatedUser e a c) of
        Inl err \<Rightarrow> (Inl err, a)
      | Inr user \<Rightarrow>
          (let user = user\<lparr>Type := User_PIPELINE\<rparr>;
               capability = uuid_NewWithoutDashes e
           in case NewSTM e (GetCapability_txn e capability user) (etcd a) of
                (Inl err, st) \<Rightarrow> (Inl (Wrapf ''error storing capability for user'' err), a\<lparr>etcd := st\<rparr>)
              | (Inr _, st) \<Rightarrow> (Inr capability, a\<lparr>etcd := st\<rparr>)))"

record RevokeAuthTokenRequest =
  rv_Token :: string

definition RevokeAuthToken_txn :: "env \<Rightarrow> RevokeAuthTokenRequest \<Rightarrow> txn" where
  "RevokeAuthToken_txn e req st =
     (case col_Get e (tokens st) (hashToken e (rv_Token req)) of
        Inl ErrNotFound \<Rightarrow> ([], Inr st)
      | Inl err \<Rightarrow> ([], Inl err)
      | Inr row \<Rightarrow>
          (if Type (row_user row) \<noteq> User_PIPELINE then
             ([], Inl (Errorf ''cannot revoke a non-pipeline auth token''))
           else ([], Inr (st\<lparr>tokens := (tokens st)(hashToken e (rv_Token req) := None)\<rparr>))))"

definition RevokeAuthToken ::
  "env \<Rightarrow> apiServer \<Rightarrow> ctx \<Rightarrow> RevokeAuthTokenRequest \<Rightarrow> (error + unit) \<times> apiServer" where
  "RevokeAuthToken e a c req =
     (if \<not> isActivated a then (Inl NotActivatedError, a)
      else
        (case getAuthenticatedUser e a c of
           Inl err \<Rightarrow> (Inl err, a)
         | Inr _ \<Rightarrow>
             (case NewSTM e (RevokeAuthToken_txn e req) (etcd a) of
                (Inl err, st) \<Rightarrow> (Inl err, a\<lparr>etcd := st\<rparr>)
              | (Inr _, st) \<Rightarrow> (Inr (), a\<lparr>etcd := st\<rparr>))))"

section \<open>Auth service: request logging and the effects of a handler\<close>

text \<open>
  Modelled from the spec: \<open>authclient.IsNotActivatedError\<close>, which \<open>LogResp\<close>
  calls, is not among the sources; the spec's request logger logs at \<open>Debug\<close> on
  the "not activated" error kind.
\<close>

definition IsNotActivatedError :: "error \<Rightarrow> bool" where
  "IsNotActivatedError err = (err = NotActivatedError)"

definition LogReq :: "effect list" where
  "LogReq = [Log_request]"

definition LogResp :: "error option \<Rightarrow> effect list" where
  "LogResp err =
     (case err of
        None \<Rightarrow> [Log_response InfoLevel]
      | Some er \<Rightarrow>
          (if IsNotActivatedError er then [Log_response DebugLevel]
           else [Log_response ErrorLevel]))"

text \<open>The named result \<open>retErr\<close> of a handler, as the deferred \<open>LogResp\<close> sees it.\<close>

definition retErr :: "(error + 'r) \<times> apiServer \<Rightarrow> error option" where
  "retErr res = (case fst res of Inl err \<Rightarrow> Some err | Inr _ \<Rightarrow> None)"

text \<open>
  The external side effects of one call of a handler, each marked with where the
  source has it: inside the callback handed to \<open>col.NewSTM\<close> (shown for one run of
  the callback), or outside of it. Each handler starts with \<open>LogReq\<close>
  (\<open>Authenticate\<close> does not, since the request holds credentials) and defers
  \<open>LogResp\<close>, which so runs last.
\<close>

datatype step = Outside effect | In_callback effect

fun callback_effects :: "step list \<Rightarrow> effect list" where
  "callback_effects [] = []"
| "callback_effects (In_callback x # steps) = x # callback_effects steps"
| "callback_effects (Outside x # steps) = callback_effects steps"

fun outside_effects :: "step list \<Rightarrow> effect list" where
  "outside_effects [] = []"
| "outside_effects (Outside x # steps) = x # outside_effects steps"
| "outside_effects (In_callback x # steps) = outside_effects steps"

fun is_log :: "effect \<Rightarrow> bool" where
  "is_log Log_request = True"
| "is_log (Log_response l) = True"
| "is_log _ = False"

fun not_GetState :: "effect \<Rightarrow> bool" where
  "not_GetState RPC_Enterprise_GetState = False"
| "not_GetState _ = True"

definition Activate_trace :: "env \<Rightarrow> apiServer \<Rightarrow> ctx \<Rightarrow> ActivateRequest \<Rightarrow> step list" where
  "Activate_trace e a c req =
     map Outside LogReq @
     (case getEnterpriseTokenState e of
        (calls, Inl err) \<Rightarrow> map Outside calls
      | (calls, Inr state) \<Rightarrow>
          map Outside calls @
          (if state \<noteq> State_ACTIVE then []
           else if isActivated a then []
           else map In_callback (fst (Activate_txn req (etcd a))))) @
     map Outside (LogResp (retErr (Activate e a c req)))"

definition Deactivate_trace :: "env \<Rightarrow> apiServer \<Rightarrow> ctx \<Rightarrow> step list" where
  "Deactivate_trace e a c =
     map Outside LogReq @
     (if \<not> isActivated a then []
      else
        (case getAuthenticatedUser e a c of
           Inl err \<Rightarrow> []
         | Inr user \<Rightarrow>
             (if \<not> isAdmin a (Username user) then []
              else map In_callback (fst (Deactivate_txn (etcd a)))))) @
     map Outside (LogResp (retErr (Deactivate e a c)))"

definition ModifyAdmins_trace ::
  "env \<Rightarrow> apiServer \<Rightarrow> ctx \<Rightarrow> ModifyAdminsRequest \<Rightarrow> step list" where
  "ModifyAdmins_trace e a c req =
     map Outside LogReq @
     (if \<not> isActivated a then []
      else
        (case getAuthenticatedUser e a c of
           Inl err \<Rightarrow> []
         | Inr user \<Rightarrow>
             (if \<not> isAdmin a (Username user) then []
              else
                (case validateModifyAdminsRequest a req of
                   Some err \<Rightarrow> []
                 | None \<Rightarrow> map In_callback (fst (ModifyAdmins_txn req (etcd a))))))) @
     map Outside (LogResp (retErr (ModifyAdmins e a c req)))"

definition Authenticate_trace ::
  "env \<Rightarrow> apiServer \<Rightarrow> ctx \<Rightarrow> AuthenticateRequest \<Rightarrow> step list" where
  "Authenticate_trace e a c req =
     (if \<not> isActivated a then []
      else if authn_GithubUsername req = magicUser then []
      else
        (if Getenv_DisableAuthentication e = ''true'' then []
         else [Outside (RPC_GitHub_Users_Get (authn_GithubToken req))]) @
        (case Authenticate_username e req of
           Inl err \<Rightarrow> []
         | Inr username \<Rightarrow>
             (case getEnterpriseTokenState e of
                (calls, Inl err) \<Rightarrow> map Outside calls
              | (calls, Inr state) \<Rightarrow>
                  map Outside calls @
                  (if state \<noteq> State_ACTIVE \<and> \<not> isAdmin a username then []
                   else map In_callback
                          (fst (Authenticate_txn e username (uuid_NewWithoutDashes e) (etcd a))))))) @
     map Outside (LogResp (retErr (Authenticate e a c req)))"

definition SetScope_trace :: "env \<Rightarrow> apiServer \<Rightarrow> ctx \<Rightarrow> SetScopeRequest \<Rightarrow> step list" where
  "SetScope_trace e a c req =
     map Outside LogReq @
     (if \<not> isActivated a then []
      else
        (case validateSetScopeRequest req of
           Some err \<Rightarrow> []
         | None \<Rightarrow>
             (case getAuthenticatedUser e a c of
                Inl err \<Rightarrow> []
              | Inr user \<Rightarrow> map In_callback (fst (SetScope_txn e a user req (etcd a)))))) @
     map Outside (LogResp (retErr (SetScope e a c req)))"

definition SetACL_trace :: "env \<Rightarrow> apiServer \<Rightarrow> ctx \<Rightarrow> SetACLRequest \<Rightarrow> step list" where
  "SetACL_trace e a c req =
     map Outside LogReq @
     (if \<not> isActivated a then []
      else if sa_Repo req = [] then []
      else
        (case getAuthenticatedUser e a c of
           Inl err \<Rightarrow> []
         | Inr user \<Rightarrow>
             (case getEnterpriseTokenState e of
                (calls, Inl err) \<Rightarrow> map Outside calls
              | (calls, Inr state) \<Rightarrow>
                  map Outside calls @
                  (if state \<noteq> State_ACTIVE \<and> \<not> isAdmin a (Username user) then []
                   else map In_callback (fst (SetACL_txn e a user req (etcd a))))))) @
     map Outside (LogResp (retErr (SetACL e a c req)))"

definition GetCapability_trace :: "env \<Rightarrow> apiServer \<Rightarrow> ctx \<Rightarrow> step list" where
  "GetCapability_trace e a c =
     map Outside LogReq @
     (case (if \<not> isActivated a then Inr \<lparr>Username = magicUser, Type = User_HUMAN\<rparr>
            else getAuthenticatedUser e a c) of
        Inl err \<Rightarrow> []
      | Inr user \<Rightarrow>
          map In_callback
            (fst (GetCapability_txn e (uuid_NewWithoutDashes e) (user\<lparr>Type := User_PIPELINE\<rparr>)
                    (etcd a)))) @
     map Outside (LogResp (retErr (GetCapability e a c)))"

definition RevokeAuthToken_trace ::
  "env \<Rightarrow> apiServer \<Rightarrow> ctx \<Rightarrow> RevokeAuthTokenRequest \<Rightarrow> step list" where
  "RevokeAuthToken_trace e a c req =
     map Outside LogReq @
     (if \<not> isActivated a then []
      else
        (case getAuthenticatedUser e a c of
           Inl err \<Rightarrow> []
         | Inr user \<Rightarrow> map In_callback (fst (RevokeAuthToken_txn e req (etcd a))))) @
     map Outside (LogResp (retErr (RevokeAuthToken e a c req)))"

section \<open>Connection pool\<close>

text \<open>
  A dialled \<open>grpc.ClientConn\<close> is an opaque handle; a nil pointer is \<open>None\<close>.
  The map \<open>conns\<close> holds pointers to \<open>connCount\<close> objects, so the pool is a heap
  of such objects and the map's entries in the order this \<open>range\<close> visits them.
  \<open>count\<close> is an \<open>int64\<close> read as a signed number.
\<close>

type_synonym ClientConn = nat

record connCount =
  cc :: "ClientConn option"
  count :: "64 word"

record Pool =
  heap :: "nat \<Rightarrow> connCount"
  conns :: "(string \<times> nat) list"

text \<open>What a call of the user's function \<open>f\<close> does: it returns (nil or an error) or panics.\<close>

datatype f_result = Returns "string option" | Panics string

text \<open>
  The selection loop of \<open>Do\<close>, run under the pool's lock: \<open>conn\<close> is the local
  variable of that name. \<open>dial\<close> is \<open>grpc.DialContext\<close>, which gives an error or
  a connection.
\<close>

fun Do_select ::
  "(string \<Rightarrow> string + ClientConn) \<Rightarrow> (string \<times> nat) list \<Rightarrow> nat option \<Rightarrow>
   (nat \<Rightarrow> connCount) \<Rightarrow> string + (nat option \<times> (nat \<Rightarrow> connCount))" where
  "Do_select dial [] conn h = Inr (conn, h)"
| "Do_select dial ((addr, mapConn) # rest) conn h =
     (case cc (h mapConn) of
        None \<Rightarrow>
          (case dial addr of
             Inl err \<Rightarrow> Inl err
           | Inr c \<Rightarrow> Inr (Some mapConn, h(mapConn := (h mapConn)\<lparr>cc := Some c\<rparr>)))
      | Some _ \<Rightarrow>
          (case conn of
             None \<Rightarrow> Do_select dial rest (Some mapConn) h
           | Some best \<Rightarrow>
               (if sint (count (h mapConn)) < sint (count (h best))
                then Do_select dial rest (Some mapConn) h
                else Do_select dial rest conn h)))"

text \<open>
  One run of \<open>Do\<close>. Either \<open>f\<close> is not called and \<open>Do\<close> returns the error, or
  \<open>f\<close> is called once: the run records the chosen object, the argument \<open>f\<close> got,
  the pool as it was when \<open>f\<close> was called, and what \<open>f\<close> did. The deferred
  decrement runs when \<open>Do\<close> is left, by return or by panic, and gives the final pool.
\<close>

datatype Do_run =
    Do_not_called string
  | Do_called (run_conn: nat) (run_arg: "ClientConn option") (run_pool: Pool) (run_result: f_result)

definition Do ::
  "(string \<Rightarrow> string + ClientConn) \<Rightarrow> (ClientConn option \<Rightarrow> f_result) \<Rightarrow> Pool \<Rightarrow> Do_run \<times> Pool" where
  "Do dial f p =
     (case Do_select dial (conns p) None (heap p) of
        Inl err \<Rightarrow> (Do_not_called err, p)
      | Inr (None, h) \<Rightarrow> (Do_not_called ''no endpoints found'', p\<lparr>heap := h\<rparr>)
      | Inr (Some conn, h) \<Rightarrow>
          (let h1 = h(conn := (h conn)\<lparr>count := count (h conn) + 1\<rparr>);
               arg = cc (h1 conn);
               r = f arg;
               h2 = h1(conn := (h1 conn)\<lparr>count := count (h1 conn) - 1\<rparr>)
           in (Do_called conn arg (p\<lparr>heap := h1\<rparr>) r, p\<lparr>heap := h2\<rparr>)))"

section \<open>Pipeline master\<close>

datatype EventType = EventPut | EventDelete | EventError

text \<open>
  A pipeline record as far as the master reads it: its name, the single input and the
  list of inputs. The input types and \<open>translatePipelineInputs\<close> belong to the pps
  client and are parameters.
\<close>

record ('i, 'p) PipelineInfo =
  pi_Name :: string
  pi_Input :: "'i option"
  pi_Inputs :: "'p list"

text \<open>
  A watch event: its type, key and error, and what \<open>Unmarshal\<close> gives for it (an
  error, or the key and the pipeline record).
\<close>

record ('i, 'p) event =
  ev_Type :: EventType
  ev_Key :: string
  ev_Err :: "error option"
  ev_Unmarshal :: "error + (string \<times> ('i, 'p) PipelineInfo)"

text \<open>The calls to the orchestrator, and the orchestrator's answers to them.\<close>

datatype ('i, 'p) k8s_call =
    upsertWorkersForPipeline "('i, 'p) PipelineInfo"
  | deleteWorkersForPipeline string

record ('i, 'p) k8s =
  upsert_err :: "('i, 'p) PipelineInfo \<Rightarrow> error option"
  delete_err :: "string \<Rightarrow> error option"

text \<open>
  The event loop of \<open>master\<close>. \<open>err\<close> is the variable declared by
  \<open>pipelineWatcher, err := ...WatchByIndex(...)\<close>; the \<open>err\<close> of
  \<open>if err := event.Unmarshal(...)\<close> lives in that statement only, so the two tests
  \<open>if err != nil\<close> that guard the orchestrator calls read the outer variable. The
  events are those the watch channel delivers before it is closed. The loop returns
  the error it ends with (\<open>None\<close> for nil) and the orchestrator calls it made.
\<close>

fun master_loop ::
  "('p list \<Rightarrow> 'i option) \<Rightarrow> ('i, 'p) k8s \<Rightarrow> error option \<Rightarrow> ('i, 'p) event list \<Rightarrow>
   ('i, 'p) k8s_call list \<Rightarrow> error option \<times> ('i, 'p) k8s_call list" where
  "master_loop translatePipelineInputs k err [] calls =
     (Some (Errorf ''pipelineWatcher closed unexpectedly''), calls)"
| "master_loop translatePipelineInputs k err (ev # rest) calls =
     (case ev_Err ev of
        Some everr \<Rightarrow> (Some everr, calls)
      | None \<Rightarrow>
          (case ev_Type ev of
             EventPut \<Rightarrow>
               (case ev_Unmarshal ev of
                  Inl uerr \<Rightarrow> (Some uerr, calls)
                | Inr (pipelineName, pipelineInfo) \<Rightarrow>
                    (let pipelineInfo =
                           (if pi_Input pipelineInfo = None
                            then pipelineInfo\<lparr>pi_Input := translatePipelineInputs (pi_Inputs pipelineInfo)\<rparr>
                            else pipelineInfo)
                     in if err \<noteq> None then
                          (upsert_err k pipelineInfo, calls @ [upsertWorkersForPipeline pipelineInfo])
                        else master_loop translatePipelineInputs k err rest calls))
           | EventDelete \<Rightarrow>
               (if err \<noteq> None then
                  (delete_err k (ev_Key ev), calls @ [deleteWorkersForPipeline (ev_Key ev)])
                else master_loop translatePipelineInputs k err rest calls)
           | EventError \<Rightarrow> master_loop translatePipelineInputs k err rest calls))"

text \<open>
  One attempt of the function that \<open>master\<close> hands to \<open>backoff.RetryNotify\<close>:
  open the watch, return its error if there is one, otherwise run the loop.
\<close>

definition master_attempt ::
  "('p list \<Rightarrow> 'i option) \<Rightarrow> ('i, 'p) k8s \<Rightarrow> error + ('i, 'p) event list \<Rightarrow>
   error option \<times> ('i, 'p) k8s_call list" where
  "master_attempt translatePipelineInputs k watch =
     (case watch of
        Inl err \<Rightarrow> (Some err, [])
      | Inr events \<Rightarrow> master_loop translatePipelineInputs k None events [])"

section \<open>Example environments and servers\<close>

text \<open>
  Concrete inputs on which the theorems below are run: an environment with a reachable
  store and an active enterprise token (the digest is replaced by an injective
  stand-in), a server that was never activated, and a server with admin alice, a
  session token of alice, one of bob, a capability of a pipeline of carol, and ACLs
  for the repos \<open>r\<close> and \<open>solo\<close>.
\<close>

definition env_active :: env where
  "env_active =
     \<lparr>etcd_err = None, pach_client_err = None, Enterprise_GetState = Inr State_ACTIVE,
      InspectRepo = (\<lambda>r. Some ''repo not found''), Getenv_DisableAuthentication = ''true'',
      github_Users_Get = (\<lambda>t. Inl ''unreachable''), uuid_NewWithoutDashes = ''uuid-1'',
      sha256_hex = (\<lambda>t. ''sha:'' @ t)\<rparr>"

definition env_expired :: env where
  "env_expired = env_active\<lparr>Enterprise_GetState := Inr State_EXPIRED\<rparr>"

definition server_fresh :: apiServer where
  "server_fresh =
     \<lparr>adminCache = {},
      etcd = \<lparr>tokens = Map.empty, acls = Map.empty, admins = Map.empty\<rparr>\<rparr>"

definition server_alice :: apiServer where
  "server_alice =
     \<lparr>adminCache = {''alice''},
      etcd = \<lparr>tokens = [''sha:t-alice'' \<mapsto> \<lparr>row_user = \<lparr>Username = ''alice'', Type = User_HUMAN\<rparr>,
                                          row_ttl = Some defaultTokenTTLSecs\<rparr>,
                         ''sha:t-bob'' \<mapsto> \<lparr>row_user = \<lparr>Username = ''bob'', Type = User_HUMAN\<rparr>,
                                        row_ttl = Some defaultTokenTTLSecs\<rparr>,
                         ''sha:t-pipe'' \<mapsto> \<lparr>row_user = \<lparr>Username = ''carol'', Type = User_PIPELINE\<rparr>,
                                         row_ttl = None\<rparr>],
               acls = [''r'' \<mapsto> \<lparr>Entries = [(''bob'', Scope_READER), (''carol'', Scope_WRITER)]\<rparr>,
                       ''solo'' \<mapsto> \<lparr>Entries = [(''bob'', Scope_READER)]\<rparr>],
               admins = [''alice'' \<mapsto> epsilon]\<rparr>\<rparr>"

text \<open>
  A pool with two dialled endpoints, the second the less loaded, and an empty pool; a
  dialler that always connects; a user function that panics and one that returns an
  error.
\<close>

definition pool_two :: Pool where
  "pool_two =
     \<lparr>heap = (\<lambda>_. \<lparr>cc = None, count = 0\<rparr>)
               (10 := \<lparr>cc = Some 5, count = 2\<rparr>, 11 := \<lparr>cc = Some 6, count = 1\<rparr>),
      conns = [(''10.0.0.1:80'', 10), (''10.0.0.2:80'', 11)]\<rparr>"

definition pool_empty :: Pool where
  "pool_empty = \<lparr>heap = (\<lambda>_. \<lparr>cc = None, count = 0\<rparr>), conns = []\<rparr>"

definition dial_ok :: "string \<Rightarrow> string + ClientConn" where
  "dial_ok addr = Inr 9"

definition f_panics :: "ClientConn option \<Rightarrow> f_result" where
  "f_panics conn = Panics ''boom''"

definition f_fails :: "ClientConn option \<Rightarrow> f_result" where
  "f_fails conn = Returns (Some ''rpc failed'')"

text \<open>
  A put event and a delete event for the pipeline \<open>p1\<close>, an orchestrator that
  accepts every call, and a stand-in for \<open>translatePipelineInputs\<close>.
\<close>

definition ev_put :: "(nat, nat) event" where
  "ev_put = \<lparr>ev_Type = EventPut, ev_Key = ''p1'', ev_Err = None,
             ev_Unmarshal = Inr (''p1'', \<lparr>pi_Name = ''p1'', pi_Input = None, pi_Inputs = [7]\<rparr>)\<rparr>"

definition ev_delete :: "(nat, nat) event" where
  "ev_delete = \<lparr>ev_Type = EventDelete, ev_Key = ''p1'', ev_Err = None,
                ev_Unmarshal = Inl (Errorf ''no value'')\<rparr>"

definition k8s_ok :: "(nat, nat) k8s" where
  "k8s_ok = \<lparr>upsert_err = (\<lambda>_. None), delete_err = (\<lambda>_. None)\<rparr>"

definition translate_first :: "nat list \<Rightarrow> nat option" where
  "translate_first ps = (case ps of [] \<Rightarrow> None | p # _ \<Rightarrow> Some p)"

section \<open>Properties\<close>

lemma fold_put_apply:
  "fold (\<lambda>user m. m(user \<mapsto> v)) us m k = (if k \<in> set us then Some v else m k)"
  by (induction us arbitrary: m) auto

subsection \<open>Facts about the example servers\<close>

lemma auth_alice: "getAuthenticatedUser env_active server_alice (Some [''t-alice'']) = Inr \<lparr>Username = ''alice'', Type = User_HUMAN\<rparr>"
  by (simp add: getAuthenticatedUser_def col_Get_def env_active_def server_alice_def hashToken_def)

lemma auth_bob: "getAuthenticatedUser env_active server_alice (Some [''t-bob'']) = Inr \<lparr>Username = ''bob'', Type = User_HUMAN\<rparr>"
  by (simp add: getAuthenticatedUser_def col_Get_def env_active_def server_alice_def hashToken_def)

lemma auth_pipe_expired: "getAuthenticatedUser env_expired server_alice (Some [''t-pipe'']) = Inr \<lparr>Username = ''carol'', Type = User_PIPELINE\<rparr>"
  by (simp add: getAuthenticatedUser_def col_Get_def env_active_def env_expired_def server_alice_def hashToken_def)

lemma activated_alice: "isActivated server_alice"
  by (simp add: isActivated_def server_alice_def)

lemma state_active: "snd (getEnterpriseTokenState env_active) = Inr State_ACTIVE"
  by (simp add: getEnterpriseTokenState_def getPachClient_def env_active_def)

lemma state_expired: "snd (getEnterpriseTokenState env_expired) = Inr State_EXPIRED"
  by (simp add: getEnterpriseTokenState_def getPachClient_def env_active_def env_expired_def)

lemma not_admin_bob: "\<not> isAdmin server_alice ''bob''"
  by (simp add: isAdmin_def magicUser_def server_alice_def)

lemma admin_alice: "isAdmin server_alice ''alice''"
  by (simp add: isAdmin_def server_alice_def)

lemma acl_r:
  "acls (etcd server_alice) ''r'' = Some \<lparr>Entries = [(''bob'', Scope_READER), (''carol'', Scope_WRITER)]\<rparr>"
  by (simp add: server_alice_def)

lemma acl_other: "acls (etcd server_alice) ''other'' = None"
  by (simp add: server_alice_def)

lemma cache_alice: "adminCache server_alice = {''alice''}"
  by (simp add: server_alice_def)

lemma env_active_simps:
  "etcd_err env_active = None" "uuid_NewWithoutDashes env_active = ''uuid-1''"
  "hashToken env_active t = ''sha:'' @ t" "Getenv_DisableAuthentication env_active = ''true''"
  by (simp_all add: env_active_def hashToken_def)

lemma env_expired_simps:
  "etcd_err env_expired = None" "uuid_NewWithoutDashes env_expired = ''uuid-1''"
  "hashToken env_expired t = ''sha:'' @ t" "Getenv_DisableAuthentication env_expired = ''true''"
  by (simp_all add: env_expired_def env_active_def hashToken_def)

lemma not_activated_fresh: "\<not> isActivated server_fresh"
  by (simp add: isActivated_def server_fresh_def)

lemma tokens_alice:
  "tokens (etcd server_alice) ''sha:t-alice'' =
     Some \<lparr>row_user = \<lparr>Username = ''alice'', Type = User_HUMAN\<rparr>, row_ttl = Some defaultTokenTTLSecs\<rparr>"
  "tokens (etcd server_alice) ''sha:t-bob'' =
     Some \<lparr>row_user = \<lparr>Username = ''bob'', Type = User_HUMAN\<rparr>, row_ttl = Some defaultTokenTTLSecs\<rparr>"
  "tokens (etcd server_alice) ''sha:t-pipe'' =
     Some \<lparr>row_user = \<lparr>Username = ''carol'', Type = User_PIPELINE\<rparr>, row_ttl = None\<rparr>"
  "tokens (etcd server_alice) ''sha:t-none'' = None"
  by (simp_all add: server_alice_def)

subsection \<open>Activate\<close>

text \<open>
  C8. \<open>Activate\<close> fails, leaving the server as it was, when the enterprise state is
  not \<open>ACTIVE\<close> (or cannot be read), and when the cluster is already activated.
  Otherwise, with the store reachable, it succeeds: every username of the request's
  admin list is then an admin row, no other row of any collection has changed, and
  the admin cache is untouched. The write is all or nothing: a call that returns an
  error leaves the server unchanged. The caller's context is never consulted, so no
  authentication is needed.
\<close>

theorem Activate_spec:
  "(snd (getEnterpriseTokenState e) \<noteq> Inr State_ACTIVE \<longrightarrow> (\<exists>err. Activate e a c req = (Inl err, a)))
 \<and> (isActivated a \<longrightarrow> (\<exists>err. Activate e a c req = (Inl err, a)))
 \<and> (snd (getEnterpriseTokenState e) = Inr State_ACTIVE \<and> \<not> isActivated a \<and> etcd_err e = None \<longrightarrow>
      (\<exists>a'. Activate e a c req = (Inr (), a') \<and> adminCache a' = adminCache a
         \<and> tokens (etcd a') = tokens (etcd a) \<and> acls (etcd a') = acls (etcd a)
         \<and> (\<forall>u. admins (etcd a') u =
                  (if u \<in> set (act_Admins req) then Some epsilon else admins (etcd a) u))))
 \<and> (\<forall>err a'. Activate e a c req = (Inl err, a') \<longrightarrow> a' = a)
 \<and> Activate e a c req = Activate e a c' req"
  apply (intro conjI)
      apply (auto simp: Activate_def split: sum.splits)[1]
     apply (auto simp: Activate_def split: sum.splits)[1]
    apply (auto simp: Activate_def NewSTM_def Activate_txn_def fold_put_apply split: sum.splits)[1]
   apply (auto simp: Activate_def NewSTM_def Activate_txn_def split: sum.splits option.splits)[1]
  apply (simp add: Activate_def)
  done

theorem Activate_spec_witness:
  "fst (Activate env_active server_fresh None \<lparr>act_Admins = [''alice'']\<rparr>) = Inr ()
 \<and> admins (etcd (snd (Activate env_active server_fresh None \<lparr>act_Admins = [''alice'']\<rparr>))) ''alice''
     = Some epsilon
 \<and> isl (fst (Activate env_expired server_fresh None \<lparr>act_Admins = [''alice'']\<rparr>))
 \<and> snd (Activate env_expired server_fresh None \<lparr>act_Admins = [''alice'']\<rparr>) = server_fresh
 \<and> isl (fst (Activate env_active server_alice None \<lparr>act_Admins = [''mallory'']\<rparr>))
 \<and> snd (Activate env_active server_alice None \<lparr>act_Admins = [''mallory'']\<rparr>) = server_alice"
  using Activate_spec [of env_active server_fresh None "\<lparr>act_Admins = [''alice'']\<rparr>" None]
    Activate_spec [of env_expired server_fresh None "\<lparr>act_Admins = [''alice'']\<rparr>" None]
    Activate_spec [of env_active server_alice None "\<lparr>act_Admins = [''mallory'']\<rparr>" None]
  by (auto simp: env_active_def env_expired_def server_fresh_def server_alice_def
      getEnterpriseTokenState_def getPachClient_def isActivated_def)

lemma getAuthenticatedUser_Inr:
  "getAuthenticatedUser e a c = Inr u \<Longrightarrow>
     etcd_err e = None \<and>
     (\<exists>tok row. c = Some [tok] \<and> tokens (etcd a) (hashToken e tok) = Some row \<and> row_user row = u)"
  apply (cases c; simp add: getAuthenticatedUser_def col_Get_def
      split: if_splits option.splits sum.splits error.splits)
  subgoal for md by (cases md; simp)
  done

subsection \<open>Authorize\<close>

text \<open>
  C1. On an activated cluster, for a caller whose token resolves to the user \<open>u\<close>
  and an enterprise service that reports the state \<open>st\<close>: \<open>Authorize\<close> answers
  \<open>Authorized = true\<close> exactly when \<open>u\<close> is an admin, or the state is
  \<open>ACTIVE\<close> or \<open>u\<close> is a pipeline user and the repo has an ACL in which the scope
  of \<open>u\<close> is at least the requested one. For a caller who is not an admin and passes
  the entitlement gate, a missing ACL gives \<open>Authorized = false\<close>. The server is
  left unchanged.
\<close>

theorem Authorize_spec:
  assumes "isActivated a" and "getAuthenticatedUser e a c = Inr u"
    and "snd (getEnterpriseTokenState e) = Inr st"
  shows "(fst (Authorize e a c req) = Inr True \<longleftrightarrow>
            isAdmin a (Username u) \<or>
            ((st = State_ACTIVE \<or> Type u = User_PIPELINE) \<and>
             (\<exists>acl. acls (etcd a) (authz_Repo req) = Some acl \<and>
                    authz_Scope req \<le> Entries_index acl (Username u))))
       \<and> (\<not> isAdmin a (Username u) \<and> (st = State_ACTIVE \<or> Type u = User_PIPELINE) \<and>
          acls (etcd a) (authz_Repo req) = None \<longrightarrow> fst (Authorize e a c req) = Inr False)
       \<and> snd (Authorize e a c req) = a"
proof -
  from assms(2) have up: "etcd_err e = None" by (simp add: getAuthenticatedUser_Inr)
  show ?thesis
    using assms up
    by (cases "acls (etcd a) (authz_Repo req)")
       (auto simp: Authorize_def col_Get_def split: sum.splits error.splits)
qed

theorem Authorize_spec_witness:
  "fst (Authorize env_active server_alice (Some [''t-bob'']) \<lparr>authz_Repo = ''r'', authz_Scope = Scope_READER\<rparr>) = Inr True
 \<and> fst (Authorize env_active server_alice (Some [''t-bob'']) \<lparr>authz_Repo = ''r'', authz_Scope = Scope_WRITER\<rparr>) \<noteq> Inr True
 \<and> fst (Authorize env_active server_alice (Some [''t-bob'']) \<lparr>authz_Repo = ''other'', authz_Scope = Scope_NONE\<rparr>) = Inr False
 \<and> fst (Authorize env_active server_alice (Some [''t-alice'']) \<lparr>authz_Repo = ''other'', authz_Scope = Scope_OWNER\<rparr>) = Inr True
 \<and> fst (Authorize env_expired server_alice (Some [''t-pipe'']) \<lparr>authz_Repo = ''r'', authz_Scope = Scope_WRITER\<rparr>) = Inr True"
proof -
  note bob = Authorize_spec [OF activated_alice auth_bob state_active]
  note alice = Authorize_spec [OF activated_alice auth_alice state_active]
  have 1: "fst (Authorize env_active server_alice (Some [''t-bob'']) \<lparr>authz_Repo = ''r'', authz_Scope = Scope_READER\<rparr>) = Inr True"
    using bob [of "\<lparr>authz_Repo = ''r'', authz_Scope = Scope_READER\<rparr>"]
    by (simp add: acl_r Entries_index_def)
  have 2: "fst (Authorize env_active server_alice (Some [''t-bob'']) \<lparr>authz_Repo = ''r'', authz_Scope = Scope_WRITER\<rparr>) \<noteq> Inr True"
    using bob [of "\<lparr>authz_Repo = ''r'', authz_Scope = Scope_WRITER\<rparr>"]
    by (simp add: acl_r Entries_index_def not_admin_bob)
  have 3: "fst (Authorize env_active server_alice (Some [''t-bob'']) \<lparr>authz_Repo = ''other'', authz_Scope = Scope_NONE\<rparr>) = Inr False"
    using bob [of "\<lparr>authz_Repo = ''other'', authz_Scope = Scope_NONE\<rparr>"]
    by (simp add: acl_other not_admin_bob)
  have 4: "fst (Authorize env_active server_alice (Some [''t-alice'']) \<lparr>authz_Repo = ''other'', authz_Scope = Scope_OWNER\<rparr>) = Inr True"
    using alice [of "\<lparr>authz_Repo = ''other'', authz_Scope = Scope_OWNER\<rparr>"]
    by (simp add: admin_alice)
  have 5: "fst (Authorize env_expired server_alice (Some [''t-pipe'']) \<lparr>authz_Repo = ''r'', authz_Scope = Scope_WRITER\<rparr>) = Inr True"
    using Authorize_spec [OF activated_alice auth_pipe_expired state_expired,
        of "\<lparr>authz_Repo = ''r'', authz_Scope = Scope_WRITER\<rparr>"]
    by (simp add: acl_r Entries_index_def)
  from 1 2 3 4 5 show ?thesis by blast
qed

subsection \<open>ModifyAdmins\<close>

lemma fold_insert_set: "fold (\<lambda>u m. insert u m) us m = m \<union> set us"
  by (induction us arbitrary: m) auto

lemma fold_minus_set: "fold (\<lambda>u m. m - {u}) us m = m - set us"
  by (induction us arbitrary: m) auto

lemma fold_delete_apply:
  "fold (\<lambda>user m. m(user := None)) us m k = (if k \<in> set us then None else m k)"
  by (induction us arbitrary: m) auto

lemma validateModifyAdminsRequest_eq:
  "validateModifyAdminsRequest a req =
     (if (adminCache a \<union> set (mod_Add req)) - set (mod_Remove req) = {}
      then Some (Errorf (''invalid request: cannot remove all cluster administrators '' @
                         ''while auth is active, to avoid unfixable cluster states''))
      else None)"
  by (simp add: validateModifyAdminsRequest_def fold_insert_set fold_minus_set Let_def)

text \<open>
  C3. On an activated cluster, for a caller who is an admin: when the admin cache with
  the names of \<open>Add\<close> put in and the names of \<open>Remove\<close> taken out is empty,
  \<open>ModifyAdmins\<close> returns the "invalid request" error and the server, with every admin
  row, is as before. Otherwise the call succeeds and its one transaction issues a put
  for every name of \<open>Add\<close> and then a delete for every name of \<open>Remove\<close>: afterwards
  no name of \<open>Remove\<close> has an admin row, every other name of \<open>Add\<close> has one, and
  no other row has changed.
\<close>

theorem ModifyAdmins_spec:
  assumes "isActivated a" and "getAuthenticatedUser e a c = Inr u" and "isAdmin a (Username u)"
  shows "((adminCache a \<union> set (mod_Add req)) - set (mod_Remove req) = {} \<longrightarrow>
            ModifyAdmins e a c req =
              (Inl (Errorf (''invalid request: cannot remove all cluster administrators '' @
                            ''while auth is active, to avoid unfixable cluster states'')), a))
       \<and> ((adminCache a \<union> set (mod_Add req)) - set (mod_Remove req) \<noteq> {} \<longrightarrow>
            (\<exists>a'. ModifyAdmins e a c req = (Inr (), a') \<and> adminCache a' = adminCache a
               \<and> tokens (etcd a') = tokens (etcd a) \<and> acls (etcd a') = acls (etcd a)
               \<and> (\<forall>k. admins (etcd a') k =
                        (if k \<in> set (mod_Remove req) then None
                         else if k \<in> set (mod_Add req) then Some epsilon
                         else admins (etcd a) k))))"
proof -
  from assms(2) have up: "etcd_err e = None" by (simp add: getAuthenticatedUser_Inr)
  show ?thesis
    using assms up
    by (auto simp: ModifyAdmins_def validateModifyAdminsRequest_eq NewSTM_def ModifyAdmins_txn_def
        fold_delete_apply fold_put_apply Let_def simp del: Un_Diff_cancel Un_Diff_cancel2)
qed

theorem ModifyAdmins_spec_witness:
  "ModifyAdmins env_active server_alice (Some [''t-alice'']) \<lparr>mod_Add = [], mod_Remove = [''alice'']\<rparr> =
     (Inl (Errorf (''invalid request: cannot remove all cluster administrators '' @
                   ''while auth is active, to avoid unfixable cluster states'')), server_alice)
 \<and> fst (ModifyAdmins env_active server_alice (Some [''t-alice'']) \<lparr>mod_Add = [''bob''], mod_Remove = [''alice'']\<rparr>) = Inr ()
 \<and> admins (etcd (snd (ModifyAdmins env_active server_alice (Some [''t-alice'']) \<lparr>mod_Add = [''bob''], mod_Remove = [''alice'']\<rparr>))) ''bob'' = Some epsilon
 \<and> admins (etcd (snd (ModifyAdmins env_active server_alice (Some [''t-alice'']) \<lparr>mod_Add = [''bob''], mod_Remove = [''alice'']\<rparr>))) ''alice'' = None"
proof -
  have adm: "isAdmin server_alice (Username \<lparr>Username = ''alice'', Type = User_HUMAN\<rparr>)"
    by (simp add: admin_alice)
  note T = ModifyAdmins_spec [OF activated_alice auth_alice adm]
  have 1: "ModifyAdmins env_active server_alice (Some [''t-alice'']) \<lparr>mod_Add = [], mod_Remove = [''alice'']\<rparr> =
     (Inl (Errorf (''invalid request: cannot remove all cluster administrators '' @
                   ''while auth is active, to avoid unfixable cluster states'')), server_alice)"
    using T [of "\<lparr>mod_Add = [], mod_Remove = [''alice'']\<rparr>"] by (simp add: cache_alice)
  have "(adminCache server_alice \<union> set [''bob'']) - set [''alice''] \<noteq> {}"
    by (simp add: cache_alice)
  with T [of "\<lparr>mod_Add = [''bob''], mod_Remove = [''alice'']\<rparr>"]
  obtain a' where a': "ModifyAdmins env_active server_alice (Some [''t-alice'']) \<lparr>mod_Add = [''bob''], mod_Remove = [''alice'']\<rparr> = (Inr (), a')"
    and adm': "\<forall>k. admins (etcd a') k = (if k \<in> set [''alice''] then None else if k \<in> set [''bob''] then Some epsilon else admins (etcd server_alice) k)"
    by auto
  from adm' have "admins (etcd a') ''bob'' = Some epsilon" "admins (etcd a') ''alice'' = None"
    by simp_all
  with 1 a' show ?thesis by simp
qed

subsection \<open>GetCapability\<close>

text \<open>
  C4. \<open>GetCapability\<close> does not ask whether the cluster is activated before it
  mints: on a cluster that is not activated, and with the store reachable, it succeeds
  and the row stored under the hash of the new capability is the magic user, typed
  \<open>PIPELINE\<close>, with no TTL. On an activated cluster the row is the authenticated
  caller, typed \<open>PIPELINE\<close>, with no TTL. Whenever the call returns a capability,
  the stored row is \<open>PIPELINE\<close>-typed and has no TTL. A capability of the magic
  user stays valid after activation: on any activated server that holds the row,
  \<open>Authorize\<close> with that capability answers true for every repo and scope.
\<close>

theorem GetCapability_spec:
  "(\<not> isActivated a \<and> etcd_err e = None \<longrightarrow>
      (\<exists>a'. GetCapability e a c = (Inr (uuid_NewWithoutDashes e), a')
         \<and> tokens (etcd a') (hashToken e (uuid_NewWithoutDashes e)) =
             Some \<lparr>row_user = \<lparr>Username = magicUser, Type = User_PIPELINE\<rparr>, row_ttl = None\<rparr>))
 \<and> (isActivated a \<and> getAuthenticatedUser e a c = Inr u \<longrightarrow>
      (\<exists>a'. GetCapability e a c = (Inr (uuid_NewWithoutDashes e), a')
         \<and> tokens (etcd a') (hashToken e (uuid_NewWithoutDashes e)) =
             Some \<lparr>row_user = \<lparr>Username = Username u, Type = User_PIPELINE\<rparr>, row_ttl = None\<rparr>))
 \<and> (\<forall>capability a'. GetCapability e a c = (Inr capability, a') \<longrightarrow>
      (\<exists>row. tokens (etcd a') (hashToken e capability) = Some row
         \<and> Type (row_user row) = User_PIPELINE \<and> row_ttl row = None
         \<and> (\<not> isActivated a \<longrightarrow> Username (row_user row) = magicUser)))
 \<and> (\<forall>a2 capability req. etcd_err e = None \<and> isActivated a2 \<and>
       tokens (etcd a2) (hashToken e capability) =
         Some \<lparr>row_user = \<lparr>Username = magicUser, Type = User_PIPELINE\<rparr>, row_ttl = None\<rparr> \<longrightarrow>
       Authorize e a2 (Some [capability]) req = (Inr True, a2))"
  apply (intro conjI)
     apply (auto simp: GetCapability_def NewSTM_def GetCapability_txn_def Let_def)[1]
    apply (auto simp: GetCapability_def NewSTM_def GetCapability_txn_def Let_def dest!: getAuthenticatedUser_Inr)[1]
   apply (auto simp: GetCapability_def NewSTM_def GetCapability_txn_def Let_def split: sum.splits option.splits if_splits)[1]
  apply (simp add: Authorize_def getAuthenticatedUser_def col_Get_def isAdmin_def)
  done

theorem GetCapability_spec_witness:
  "fst (GetCapability env_active server_fresh None) = Inr ''uuid-1''
 \<and> tokens (etcd (snd (GetCapability env_active server_fresh None))) ''sha:uuid-1'' =
     Some \<lparr>row_user = \<lparr>Username = magicUser, Type = User_PIPELINE\<rparr>, row_ttl = None\<rparr>
 \<and> fst (GetCapability env_active server_alice (Some [''t-bob''])) = Inr ''uuid-1''
 \<and> tokens (etcd (snd (GetCapability env_active server_alice (Some [''t-bob''])))) ''sha:uuid-1'' =
     Some \<lparr>row_user = \<lparr>Username = ''bob'', Type = User_PIPELINE\<rparr>, row_ttl = None\<rparr>
 \<and> fst (Authorize env_active
          ((snd (GetCapability env_active server_fresh None))\<lparr>adminCache := {''alice''}\<rparr>)
          (Some [''uuid-1'']) \<lparr>authz_Repo = ''r'', authz_Scope = Scope_OWNER\<rparr>) = Inr True"
proof -
  note T = GetCapability_spec [of server_fresh env_active None]
  from T
  obtain a' where a': "GetCapability env_active server_fresh None = (Inr ''uuid-1'', a')"
    and row: "tokens (etcd a') ''sha:uuid-1'' =
           Some \<lparr>row_user = \<lparr>Username = magicUser, Type = User_PIPELINE\<rparr>, row_ttl = None\<rparr>"
    by (auto simp: not_activated_fresh env_active_simps)
  from GetCapability_spec [of server_alice env_active "Some [''t-bob'']" "\<lparr>Username = ''bob'', Type = User_HUMAN\<rparr>"]
  obtain a'' where a'': "GetCapability env_active server_alice (Some [''t-bob'']) = (Inr ''uuid-1'', a'')"
    and row'': "tokens (etcd a'') ''sha:uuid-1'' =
           Some \<lparr>row_user = \<lparr>Username = ''bob'', Type = User_PIPELINE\<rparr>, row_ttl = None\<rparr>"
    by (auto simp: activated_alice auth_bob env_active_simps)
  have later: "etcd_err env_active = None \<and> isActivated (a'\<lparr>adminCache := {''alice''}\<rparr>) \<and>
      tokens (etcd (a'\<lparr>adminCache := {''alice''}\<rparr>)) (hashToken env_active ''uuid-1'') =
        Some \<lparr>row_user = \<lparr>Username = magicUser, Type = User_PIPELINE\<rparr>, row_ttl = None\<rparr>"
    by (simp add: env_active_simps isActivated_def row)
  from T later
  have "Authorize env_active (a'\<lparr>adminCache := {''alice''}\<rparr>) (Some [''uuid-1''])
          \<lparr>authz_Repo = ''r'', authz_Scope = Scope_OWNER\<rparr> = (Inr True, a'\<lparr>adminCache := {''alice''}\<rparr>)"
    by blast
  with a' row a'' row'' show ?thesis by simp
qed

subsection \<open>RevokeAuthToken\<close>

lemma RevokeAuthToken_txn_simps:
  "etcd_err e = None \<Longrightarrow> RevokeAuthToken_txn e req st =
     (case tokens st (hashToken e (rv_Token req)) of
        None \<Rightarrow> ([], Inr st)
      | Some row \<Rightarrow> (if Type (row_user row) \<noteq> User_PIPELINE
                     then ([], Inl (Errorf ''cannot revoke a non-pipeline auth token''))
                     else ([], Inr (st\<lparr>tokens := (tokens st)(hashToken e (rv_Token req) := None)\<rparr>))))"
  by (simp add: RevokeAuthToken_txn_def col_Get_def split: option.splits)

text \<open>
  C5. On an activated cluster, for a caller whose own token resolves: revoking a token
  whose row is \<open>PIPELINE\<close>-typed succeeds and deletes exactly that row; revoking a
  token whose row is \<open>HUMAN\<close>-typed fails and changes nothing; revoking a token
  with no row succeeds and changes nothing. Hence a second revocation of the same
  pipeline token, by a caller who is still authenticated after the first, succeeds as
  well and changes nothing more.
\<close>

theorem RevokeAuthToken_spec:
  assumes "isActivated a" and "getAuthenticatedUser e a c = Inr caller"
  shows "(\<forall>row. tokens (etcd a) (hashToken e t) = Some row \<and> Type (row_user row) = User_PIPELINE \<longrightarrow>
            RevokeAuthToken e a c \<lparr>rv_Token = t\<rparr> =
              (Inr (), a\<lparr>etcd := (etcd a)\<lparr>tokens := (tokens (etcd a))(hashToken e t := None)\<rparr>\<rparr>))
       \<and> (\<forall>row. tokens (etcd a) (hashToken e t) = Some row \<and> Type (row_user row) = User_HUMAN \<longrightarrow>
            RevokeAuthToken e a c \<lparr>rv_Token = t\<rparr> =
              (Inl (Errorf ''cannot revoke a non-pipeline auth token''), a))
       \<and> (tokens (etcd a) (hashToken e t) = None \<longrightarrow>
            RevokeAuthToken e a c \<lparr>rv_Token = t\<rparr> = (Inr (), a))
       \<and> (\<forall>row caller1. tokens (etcd a) (hashToken e t) = Some row \<and> Type (row_user row) = User_PIPELINE \<and>
            getAuthenticatedUser e (snd (RevokeAuthToken e a c \<lparr>rv_Token = t\<rparr>)) c = Inr caller1 \<longrightarrow>
            fst (RevokeAuthToken e a c \<lparr>rv_Token = t\<rparr>) = Inr () \<and>
            RevokeAuthToken e (snd (RevokeAuthToken e a c \<lparr>rv_Token = t\<rparr>)) c \<lparr>rv_Token = t\<rparr> =
              (Inr (), snd (RevokeAuthToken e a c \<lparr>rv_Token = t\<rparr>)))"
proof -
  from assms(2) have up: "etcd_err e = None" by (simp add: getAuthenticatedUser_Inr)
  have A: "\<And>b cl. isActivated b \<Longrightarrow> getAuthenticatedUser e b c = Inr cl \<Longrightarrow>
      RevokeAuthToken e b c \<lparr>rv_Token = t\<rparr> =
        (case tokens (etcd b) (hashToken e t) of
           None \<Rightarrow> (Inr (), b)
         | Some row \<Rightarrow> (if Type (row_user row) \<noteq> User_PIPELINE
                        then (Inl (Errorf ''cannot revoke a non-pipeline auth token''), b)
                        else (Inr (), b\<lparr>etcd := (etcd b)\<lparr>tokens := (tokens (etcd b))(hashToken e t := None)\<rparr>\<rparr>)))"
    using up by (simp add: RevokeAuthToken_def NewSTM_def RevokeAuthToken_txn_simps split: option.splits)
  have act: "\<And>b. isActivated (a\<lparr>etcd := b\<rparr>)" using assms(1) by (simp add: isActivated_def)
  show ?thesis
    apply (intro conjI allI impI)
        apply (simp add: A [OF assms])
       apply (simp add: A [OF assms])
      apply (simp add: A [OF assms])
     apply (simp add: A [OF assms])
    apply (elim conjE)
    apply (simp add: A [OF assms])
    apply (subst A)
      apply (rule act)
     apply assumption
    apply simp
    done
qed

theorem RevokeAuthToken_spec_witness:
  "RevokeAuthToken env_active server_alice (Some [''t-alice'']) \<lparr>rv_Token = ''t-pipe''\<rparr> =
     (Inr (), server_alice\<lparr>etcd := (etcd server_alice)\<lparr>tokens := (tokens (etcd server_alice))(''sha:t-pipe'' := None)\<rparr>\<rparr>)
 \<and> RevokeAuthToken env_active server_alice (Some [''t-alice'']) \<lparr>rv_Token = ''t-bob''\<rparr> =
     (Inl (Errorf ''cannot revoke a non-pipeline auth token''), server_alice)
 \<and> RevokeAuthToken env_active server_alice (Some [''t-alice'']) \<lparr>rv_Token = ''t-none''\<rparr> = (Inr (), server_alice)
 \<and> fst (RevokeAuthToken env_active
          (snd (RevokeAuthToken env_active server_alice (Some [''t-alice'']) \<lparr>rv_Token = ''t-pipe''\<rparr>))
          (Some [''t-alice'']) \<lparr>rv_Token = ''t-pipe''\<rparr>) = Inr ()"
proof -
  note T = RevokeAuthToken_spec [OF activated_alice auth_alice]
  have 1: "RevokeAuthToken env_active server_alice (Some [''t-alice'']) \<lparr>rv_Token = ''t-pipe''\<rparr> =
     (Inr (), server_alice\<lparr>etcd := (etcd server_alice)\<lparr>tokens := (tokens (etcd server_alice))(''sha:t-pipe'' := None)\<rparr>\<rparr>)"
    using T [of "''t-pipe''"] by (simp add: env_active_simps tokens_alice)
  have 2: "RevokeAuthToken env_active server_alice (Some [''t-alice'']) \<lparr>rv_Token = ''t-bob''\<rparr> =
     (Inl (Errorf ''cannot revoke a non-pipeline auth token''), server_alice)"
    using T [of "''t-bob''"] by (simp add: env_active_simps tokens_alice)
  have 3: "RevokeAuthToken env_active server_alice (Some [''t-alice'']) \<lparr>rv_Token = ''t-none''\<rparr> = (Inr (), server_alice)"
    using T [of "''t-none''"] by (simp add: env_active_simps tokens_alice)
  have still: "getAuthenticatedUser env_active
      (snd (RevokeAuthToken env_active server_alice (Some [''t-alice'']) \<lparr>rv_Token = ''t-pipe''\<rparr>))
      (Some [''t-alice'']) = Inr \<lparr>Username = ''alice'', Type = User_HUMAN\<rparr>"
    by (simp add: 1 getAuthenticatedUser_def col_Get_def env_active_simps tokens_alice)
  have 4: "fst (RevokeAuthToken env_active
          (snd (RevokeAuthToken env_active server_alice (Some [''t-alice'']) \<lparr>rv_Token = ''t-pipe''\<rparr>))
          (Some [''t-alice'']) \<lparr>rv_Token = ''t-pipe''\<rparr>) = Inr ()"
  proof -
    have tk: "tokens (etcd server_alice) (hashToken env_active ''t-pipe'') =
        Some \<lparr>row_user = \<lparr>Username = ''carol'', Type = User_PIPELINE\<rparr>, row_ttl = None\<rparr>"
      by (simp add: env_active_simps tokens_alice)
    have ty: "Type (row_user \<lparr>row_user = \<lparr>Username = ''carol'', Type = User_PIPELINE\<rparr>, row_ttl = None\<rparr>) = User_PIPELINE"
      by simp
    from T [of "''t-pipe''"] tk ty still
    have "RevokeAuthToken env_active
            (snd (RevokeAuthToken env_active server_alice (Some [''t-alice'']) \<lparr>rv_Token = ''t-pipe''\<rparr>))
            (Some [''t-alice'']) \<lparr>rv_Token = ''t-pipe''\<rparr> =
          (Inr (), snd (RevokeAuthToken env_active server_alice (Some [''t-alice'']) \<lparr>rv_Token = ''t-pipe''\<rparr>))"
      by blast
    then show ?thesis by simp
  qed
  from 1 2 3 4 show ?thesis by blast
qed

subsection \<open>Authenticate\<close>

text \<open>
  C10. On an activated cluster, once the caller's username is determined and the
  enterprise service reports a state other than \<open>ACTIVE\<close>: when that username is
  not an admin, \<open>Authenticate\<close> returns an error and the server, with its tokens,
  is unchanged; when it is an admin (and the request does not name the magic user, and
  the store is reachable), \<open>Authenticate\<close> succeeds and stores a \<open>HUMAN\<close> row
  for that username with the default TTL under the hash of the returned token.
\<close>

theorem Authenticate_entitlement_gate:
  assumes "isActivated a" and "Authenticate_username e req = Inr username"
    and "snd (getEnterpriseTokenState e) = Inr st" and "st \<noteq> State_ACTIVE"
  shows "(\<not> isAdmin a username \<longrightarrow>
            isl (fst (Authenticate e a c req)) \<and> snd (Authenticate e a c req) = a)
       \<and> (isAdmin a username \<and> authn_GithubUsername req \<noteq> magicUser \<and> etcd_err e = None \<longrightarrow>
            (\<exists>a'. Authenticate e a c req = (Inr (uuid_NewWithoutDashes e), a')
               \<and> tokens (etcd a') (hashToken e (uuid_NewWithoutDashes e)) =
                   Some \<lparr>row_user = \<lparr>Username = username, Type = User_HUMAN\<rparr>,
                         row_ttl = Some defaultTokenTTLSecs\<rparr>))"
  using assms
  by (auto simp: Authenticate_def NewSTM_def Authenticate_txn_def Let_def)

theorem Authenticate_entitlement_gate_witness:
  "isl (fst (Authenticate env_expired server_alice None \<lparr>authn_GithubUsername = ''bob'', authn_GithubToken = []\<rparr>))
 \<and> snd (Authenticate env_expired server_alice None \<lparr>authn_GithubUsername = ''bob'', authn_GithubToken = []\<rparr>) = server_alice
 \<and> fst (Authenticate env_expired server_alice None \<lparr>authn_GithubUsername = ''alice'', authn_GithubToken = []\<rparr>) = Inr ''uuid-1''
 \<and> tokens (etcd (snd (Authenticate env_expired server_alice None \<lparr>authn_GithubUsername = ''alice'', authn_GithubToken = []\<rparr>))) ''sha:uuid-1'' =
     Some \<lparr>row_user = \<lparr>Username = ''alice'', Type = User_HUMAN\<rparr>, row_ttl = Some defaultTokenTTLSecs\<rparr>"
proof -
  have ub: "Authenticate_username env_expired \<lparr>authn_GithubUsername = ''bob'', authn_GithubToken = []\<rparr> = Inr ''bob''"
    by (simp add: Authenticate_username_def env_expired_simps)
  have ua: "Authenticate_username env_expired \<lparr>authn_GithubUsername = ''alice'', authn_GithubToken = []\<rparr> = Inr ''alice''"
    by (simp add: Authenticate_username_def env_expired_simps)
  have ne: "State_EXPIRED \<noteq> State_ACTIVE" by simp
  have nm: "''alice'' \<noteq> magicUser" by (simp add: magicUser_def)
  have b: "isl (fst (Authenticate env_expired server_alice None \<lparr>authn_GithubUsername = ''bob'', authn_GithubToken = []\<rparr>))
      \<and> snd (Authenticate env_expired server_alice None \<lparr>authn_GithubUsername = ''bob'', authn_GithubToken = []\<rparr>) = server_alice"
    using Authenticate_entitlement_gate [OF activated_alice ub state_expired ne, of None]
    by (simp add: not_admin_bob)
  from Authenticate_entitlement_gate [OF activated_alice ua state_expired ne, of None]
  obtain a' where "Authenticate env_expired server_alice None \<lparr>authn_GithubUsername = ''alice'', authn_GithubToken = []\<rparr> = (Inr ''uuid-1'', a')"
    and "tokens (etcd a') ''sha:uuid-1'' =
     Some \<lparr>row_user = \<lparr>Username = ''alice'', Type = User_HUMAN\<rparr>, row_ttl = Some defaultTokenTTLSecs\<rparr>"
    by (auto simp: admin_alice nm env_expired_simps)
  with b show ?thesis by simp
qed

subsection \<open>SetScope and SetACL: rows whose entries become empty\<close>

lemma acl_solo: "acls (etcd server_alice) ''solo'' = Some \<lparr>Entries = [(''bob'', Scope_READER)]\<rparr>"
  by (simp add: server_alice_def)

text \<open>
  \<open>SetACL\<close> deletes the row when the new ACL is nil or has no entries.
  \<open>SetScope\<close> ends with an unconditional \<open>Put\<close>, so a call that succeeds always
  leaves a row for the repo.
\<close>

lemma SetScope_row_present:
  "SetScope e a c req = (Inr (), a') \<Longrightarrow> acls (etcd a') (ss_Repo req) \<noteq> None"
  by (auto simp: SetScope_def NewSTM_def SetScope_txn_def Let_def
      split: if_splits option.splits sum.splits prod.splits)

lemma SetACL_empty_deletes_row:
  assumes "SetACL e a c req = (Inr (), a')"
    and "sa_NewACL req = None \<or> (\<exists>acl. sa_NewACL req = Some acl \<and> Entries acl = [])"
  shows "acls (etcd a') (sa_Repo req) = None"
  using assms
  by (auto simp: SetACL_def NewSTM_def SetACL_txn_def Let_def
      split: if_splits option.splits sum.splits prod.splits)

text \<open>
  C6. The admin alice sets bob's scope on the repo \<open>solo\<close> to \<open>NONE\<close>, where bob
  is the only entry of the ACL. The call succeeds, and the row of \<open>solo\<close> is still in
  the store afterwards, holding an ACL with no entries: \<open>SetScope\<close> does not delete
  the row when it removes the last entry.
\<close>

theorem SetScope_last_entry_keeps_row:
  "fst (SetScope env_active server_alice (Some [''t-alice''])
          \<lparr>ss_Username = ''bob'', ss_Repo = ''solo'', ss_Scope = Scope_NONE\<rparr>) = Inr ()
 \<and> acls (etcd (snd (SetScope env_active server_alice (Some [''t-alice''])
          \<lparr>ss_Username = ''bob'', ss_Repo = ''solo'', ss_Scope = Scope_NONE\<rparr>))) ''solo''
     = Some \<lparr>Entries = []\<rparr>"
  by (simp add: SetScope_def validateSetScopeRequest_def activated_alice auth_alice NewSTM_def
      SetScope_txn_def SetScope_authorized_def admin_alice col_Get_def env_active_simps
      Entries_delete_def acl_solo)

subsection \<open>External side effects inside transaction callbacks\<close>

text \<open>
  C9, as stated, fails: bob, who is not an admin, asks to become owner of the repo
  \<open>new\<close>, which has no ACL. The callback of the \<open>SetScope\<close> transaction calls
  the enterprise service and then inspects the repo, both inside the transaction.
\<close>

theorem SetScope_txn_calls_out:
  "fst (SetScope_txn env_active server_alice \<lparr>Username = ''bob'', Type = User_HUMAN\<rparr>
          \<lparr>ss_Username = ''bob'', ss_Repo = ''new'', ss_Scope = Scope_OWNER\<rparr> (etcd server_alice))
     = [RPC_Enterprise_GetState, RPC_InspectRepo ''new'']"
proof -
  have acl_new: "acls (etcd server_alice) ''new'' = None"
    by (simp add: server_alice_def)
  have st: "getEnterpriseTokenState env_active = ([RPC_Enterprise_GetState], Inr State_ACTIVE)"
    by (simp add: getEnterpriseTokenState_def getPachClient_def env_active_def)
  have pc: "getPachClient env_active = Inr ()"
    by (simp add: getPachClient_def env_active_def)
  have ir: "InspectRepo env_active ''new'' = Some ''repo not found''"
    by (simp add: env_active_def)
  show ?thesis
    by (simp add: SetScope_txn_def SetScope_authorized_def not_admin_bob col_Get_def
        env_active_simps acl_new st pc ir HasSuffix_def Let_def)
qed

lemma callback_effects_append:
  "callback_effects (xs @ ys) = callback_effects xs @ callback_effects ys"
  by (induction xs rule: callback_effects.induct) simp_all

lemma outside_effects_append:
  "outside_effects (xs @ ys) = outside_effects xs @ outside_effects ys"
  by (induction xs rule: outside_effects.induct) simp_all

lemma callback_effects_map:
  "callback_effects (map Outside xs) = []" "callback_effects (map In_callback xs) = xs"
  by (induction xs) simp_all

lemma outside_effects_map:
  "outside_effects (map Outside xs) = xs" "outside_effects (map In_callback xs) = []"
  by (induction xs) simp_all

lemmas trace_simps =
  callback_effects_append outside_effects_append callback_effects_map outside_effects_map

lemma is_log_LogReq_LogResp:
  "filter is_log LogReq = LogReq" "filter is_log (LogResp err) = LogResp err"
  by (simp_all add: LogReq_def LogResp_def split: option.splits)

lemma getEnterpriseTokenState_effects:
  "getEnterpriseTokenState e = (calls, r) \<Longrightarrow> filter is_log calls = []"
  by (auto simp: getEnterpriseTokenState_def split: sum.splits)

lemma txn_no_effects:
  "fst (Activate_txn r1 st) = []" "fst (Deactivate_txn st) = []" "fst (ModifyAdmins_txn r2 st) = []"
  "fst (Authenticate_txn e n t st) = []" "fst (SetACL_txn e a u r3 st) = []"
  "fst (GetCapability_txn e t u st) = []" "fst (RevokeAuthToken_txn e r4 st) = []"
  by (simp_all add: Activate_txn_def Deactivate_txn_def ModifyAdmins_txn_def Authenticate_txn_def
      SetACL_txn_def GetCapability_txn_def RevokeAuthToken_txn_def Let_def
      split: option.splits sum.splits error.splits)

lemma SetScope_txn_effects:
  "fst (SetScope_txn e a u req st) =
     (if isAdmin a (Username u) then []
      else fst (getEnterpriseTokenState e) @
           (if snd (getEnterpriseTokenState e) = Inr State_ACTIVE \<and>
               (case col_Get e (acls st) (ss_Repo req) of Inl err \<Rightarrow> True | Inr acl \<Rightarrow> Entries acl = [])
            then [RPC_InspectRepo (ss_Repo req)] else []))"
  by (auto simp: SetScope_txn_def SetScope_authorized_def getEnterpriseTokenState_def
      getPachClient_def Let_def split: sum.splits option.splits)

lemma getEnterpriseTokenState_only:
  "filter not_GetState (fst (getEnterpriseTokenState e)) = []"
  "filter is_log (fst (getEnterpriseTokenState e)) = []"
  by (auto simp: getEnterpriseTokenState_def split: sum.splits option.splits)

text \<open>
  C9, amended. In every handler of the auth service that runs a transaction, all
  logging is outside the transaction callback: the log lines of a call are the request
  line of \<open>LogReq\<close>, written first, and the response line of the deferred
  \<open>LogResp\<close>, written last (\<open>Authenticate\<close> writes the response line only), and
  no callback writes a log line. The callbacks of \<open>Activate\<close>, \<open>Deactivate\<close>,
  \<open>ModifyAdmins\<close>, \<open>Authenticate\<close>, \<open>SetACL\<close>, \<open>GetCapability\<close> and
  \<open>RevokeAuthToken\<close> have no external side effect at all. Leaving aside its call to
  the enterprise service, the callback of \<open>SetScope\<close> has one external side effect,
  the inspection of the repo, and has it exactly when the caller is not an admin, the
  enterprise state is \<open>ACTIVE\<close> and the ACL read in the transaction has no entries.
\<close>

theorem handler_effects:
  "callback_effects (Activate_trace e a c r1) = []
 \<and> callback_effects (Deactivate_trace e a c) = []
 \<and> callback_effects (ModifyAdmins_trace e a c r2) = []
 \<and> callback_effects (Authenticate_trace e a c r3) = []
 \<and> callback_effects (SetACL_trace e a c r4) = []
 \<and> callback_effects (GetCapability_trace e a c) = []
 \<and> callback_effects (RevokeAuthToken_trace e a c r5) = []
 \<and> filter not_GetState (callback_effects (SetScope_trace e a c req)) =
      (if isActivated a \<and> validateSetScopeRequest req = None \<and>
          (\<exists>user. getAuthenticatedUser e a c = Inr user \<and> \<not> isAdmin a (Username user)) \<and>
          snd (getEnterpriseTokenState e) = Inr State_ACTIVE \<and>
          (case acls (etcd a) (ss_Repo req) of None \<Rightarrow> True | Some acl \<Rightarrow> Entries acl = [])
       then [RPC_InspectRepo (ss_Repo req)] else [])
 \<and> filter is_log (callback_effects (SetScope_trace e a c req)) = []
 \<and> filter is_log (outside_effects (Activate_trace e a c r1)) = LogReq @ LogResp (retErr (Activate e a c r1))
 \<and> filter is_log (outside_effects (Deactivate_trace e a c)) = LogReq @ LogResp (retErr (Deactivate e a c))
 \<and> filter is_log (outside_effects (ModifyAdmins_trace e a c r2)) =
      LogReq @ LogResp (retErr (ModifyAdmins e a c r2))
 \<and> filter is_log (outside_effects (Authenticate_trace e a c r3)) = LogResp (retErr (Authenticate e a c r3))
 \<and> filter is_log (outside_effects (SetScope_trace e a c req)) = LogReq @ LogResp (retErr (SetScope e a c req))
 \<and> filter is_log (outside_effects (SetACL_trace e a c r4)) = LogReq @ LogResp (retErr (SetACL e a c r4))
 \<and> filter is_log (outside_effects (GetCapability_trace e a c)) = LogReq @ LogResp (retErr (GetCapability e a c))
 \<and> filter is_log (outside_effects (RevokeAuthToken_trace e a c r5)) =
      LogReq @ LogResp (retErr (RevokeAuthToken e a c r5))"
proof (intro conjI)
  show "callback_effects (Activate_trace e a c r1) = []"
    by (simp add: Activate_trace_def trace_simps txn_no_effects split: prod.splits sum.splits)
  show "callback_effects (Deactivate_trace e a c) = []"
    by (simp add: Deactivate_trace_def trace_simps txn_no_effects split: sum.splits)
  show "callback_effects (ModifyAdmins_trace e a c r2) = []"
    by (simp add: ModifyAdmins_trace_def trace_simps txn_no_effects split: sum.splits option.splits)
  show "callback_effects (Authenticate_trace e a c r3) = []"
    by (simp add: Authenticate_trace_def trace_simps txn_no_effects split: prod.splits sum.splits)
  show "callback_effects (SetACL_trace e a c r4) = []"
    by (simp add: SetACL_trace_def trace_simps txn_no_effects split: prod.splits sum.splits)
  show "callback_effects (GetCapability_trace e a c) = []"
    by (simp add: GetCapability_trace_def trace_simps txn_no_effects split: sum.splits)
  show "callback_effects (RevokeAuthToken_trace e a c r5) = []"
    by (simp add: RevokeAuthToken_trace_def trace_simps txn_no_effects split: sum.splits)
  show "filter is_log (callback_effects (SetScope_trace e a c req)) = []"
    by (simp add: SetScope_trace_def trace_simps SetScope_txn_effects getEnterpriseTokenState_only
        split: sum.splits option.splits)
  show "filter not_GetState (callback_effects (SetScope_trace e a c req)) =
      (if isActivated a \<and> validateSetScopeRequest req = None \<and>
          (\<exists>user. getAuthenticatedUser e a c = Inr user \<and> \<not> isAdmin a (Username user)) \<and>
          snd (getEnterpriseTokenState e) = Inr State_ACTIVE \<and>
          (case acls (etcd a) (ss_Repo req) of None \<Rightarrow> True | Some acl \<Rightarrow> Entries acl = [])
       then [RPC_InspectRepo (ss_Repo req)] else [])"
  proof (cases "getAuthenticatedUser e a c")
    case (Inl err)
    then show ?thesis
      by (simp add: SetScope_trace_def trace_simps split: option.splits)
  next
    case (Inr user)
    then have up: "etcd_err e = None" by (simp add: getAuthenticatedUser_Inr)
    show ?thesis
      using Inr up
      by (simp add: SetScope_trace_def trace_simps SetScope_txn_effects getEnterpriseTokenState_only
          col_Get_def split: option.splits)
  qed
  show "filter is_log (outside_effects (Activate_trace e a c r1)) = LogReq @ LogResp (retErr (Activate e a c r1))"
    by (auto simp: Activate_trace_def trace_simps is_log_LogReq_LogResp
        dest: getEnterpriseTokenState_effects split: prod.splits sum.splits)
  show "filter is_log (outside_effects (Deactivate_trace e a c)) = LogReq @ LogResp (retErr (Deactivate e a c))"
    by (simp add: Deactivate_trace_def trace_simps is_log_LogReq_LogResp split: sum.splits)
  show "filter is_log (outside_effects (ModifyAdmins_trace e a c r2)) =
      LogReq @ LogResp (retErr (ModifyAdmins e a c r2))"
    by (simp add: ModifyAdmins_trace_def trace_simps is_log_LogReq_LogResp split: sum.splits option.splits)
  show "filter is_log (outside_effects (Authenticate_trace e a c r3)) = LogResp (retErr (Authenticate e a c r3))"
    by (auto simp: Authenticate_trace_def trace_simps is_log_LogReq_LogResp
        dest: getEnterpriseTokenState_effects split: prod.splits sum.splits)
  show "filter is_log (outside_effects (SetScope_trace e a c req)) = LogReq @ LogResp (retErr (SetScope e a c req))"
    by (simp add: SetScope_trace_def trace_simps is_log_LogReq_LogResp split: sum.splits option.splits)
  show "filter is_log (outside_effects (SetACL_trace e a c r4)) = LogReq @ LogResp (retErr (SetACL e a c r4))"
    by (auto simp: SetACL_trace_def trace_simps is_log_LogReq_LogResp
        dest: getEnterpriseTokenState_effects split: prod.splits sum.splits)
  show "filter is_log (outside_effects (GetCapability_trace e a c)) = LogReq @ LogResp (retErr (GetCapability e a c))"
    by (simp add: GetCapability_trace_def trace_simps is_log_LogReq_LogResp split: sum.splits)
  show "filter is_log (outside_effects (RevokeAuthToken_trace e a c r5)) =
      LogReq @ LogResp (retErr (RevokeAuthToken e a c r5))"
    by (simp add: RevokeAuthToken_trace_def trace_simps is_log_LogReq_LogResp split: sum.splits)
qed

theorem handler_effects_witness:
  "filter not_GetState (callback_effects (SetScope_trace env_active server_alice (Some [''t-bob''])
      \<lparr>ss_Username = ''bob'', ss_Repo = ''other'', ss_Scope = Scope_OWNER\<rparr>)) = [RPC_InspectRepo ''other'']
 \<and> filter not_GetState (callback_effects (SetScope_trace env_active server_alice (Some [''t-bob''])
      \<lparr>ss_Username = ''bob'', ss_Repo = ''r'', ss_Scope = Scope_WRITER\<rparr>)) = []
 \<and> filter not_GetState (callback_effects (SetScope_trace env_active server_alice (Some [''t-alice''])
      \<lparr>ss_Username = ''bob'', ss_Repo = ''other'', ss_Scope = Scope_WRITER\<rparr>)) = []
 \<and> filter is_log (callback_effects (SetScope_trace env_active server_alice (Some [''t-bob''])
      \<lparr>ss_Username = ''bob'', ss_Repo = ''other'', ss_Scope = Scope_OWNER\<rparr>)) = []
 \<and> filter is_log (outside_effects (SetScope_trace env_active server_alice (Some [''t-bob''])
      \<lparr>ss_Username = ''bob'', ss_Repo = ''other'', ss_Scope = Scope_OWNER\<rparr>))
     = [Log_request, Log_response InfoLevel]
 \<and> filter is_log (outside_effects (SetScope_trace env_active server_fresh None
      \<lparr>ss_Username = ''bob'', ss_Repo = ''other'', ss_Scope = Scope_OWNER\<rparr>))
     = [Log_request, Log_response DebugLevel]
 \<and> callback_effects (Activate_trace env_active server_fresh None \<lparr>act_Admins = [''alice'']\<rparr>) = []
 \<and> filter is_log (outside_effects (Activate_trace env_active server_fresh None \<lparr>act_Admins = [''alice'']\<rparr>))
     = [Log_request, Log_response InfoLevel]"
proof -
  let ?own = "\<lparr>ss_Username = ''bob'', ss_Repo = ''other'', ss_Scope = Scope_OWNER\<rparr>"
  let ?wr = "\<lparr>ss_Username = ''bob'', ss_Repo = ''r'', ss_Scope = Scope_WRITER\<rparr>"
  let ?wo = "\<lparr>ss_Username = ''bob'', ss_Repo = ''other'', ss_Scope = Scope_WRITER\<rparr>"
  have v: "validateSetScopeRequest ?own = None" "validateSetScopeRequest ?wr = None"
    "validateSetScopeRequest ?wo = None"
    by (simp_all add: validateSetScopeRequest_def)
  have st: "getEnterpriseTokenState env_active = ([RPC_Enterprise_GetState], Inr State_ACTIVE)"
    by (simp add: getEnterpriseTokenState_def getPachClient_def env_active_def)
  have pc: "getPachClient env_active = Inr ()"
    by (simp add: getPachClient_def env_active_def)
  have ir: "InspectRepo env_active ''other'' = Some ''repo not found''"
    by (simp add: env_active_def)
  have ok: "retErr (SetScope env_active server_alice (Some [''t-bob'']) ?own) = None"
    by (simp add: retErr_def SetScope_def v activated_alice auth_bob NewSTM_def SetScope_txn_def
        SetScope_authorized_def not_admin_bob col_Get_def env_active_simps acl_other st pc ir
        HasSuffix_def Let_def)
  have na: "retErr (SetScope env_active server_fresh None ?own) = Some NotActivatedError"
    by (simp add: retErr_def SetScope_def not_activated_fresh)
  have act: "retErr (Activate env_active server_fresh None \<lparr>act_Admins = [''alice'']\<rparr>) = None"
    by (simp add: retErr_def Activate_def st not_activated_fresh NewSTM_def Activate_txn_def
        env_active_simps)
  note B = handler_effects [of env_active server_alice "Some [''t-bob'']"]
  have 1: "filter not_GetState (callback_effects (SetScope_trace env_active server_alice (Some [''t-bob'']) ?own))
      = [RPC_InspectRepo ''other'']"
    using B [of _ _ _ _ _ ?own]
    by (simp add: activated_alice v auth_bob not_admin_bob st acl_other)
  have 2: "filter not_GetState (callback_effects (SetScope_trace env_active server_alice (Some [''t-bob'']) ?wr)) = []"
    using B [of _ _ _ _ _ ?wr]
    by (simp add: activated_alice v auth_bob not_admin_bob st acl_r)
  have 3: "filter not_GetState (callback_effects (SetScope_trace env_active server_alice (Some [''t-alice'']) ?wo)) = []"
    using handler_effects [of env_active server_alice "Some [''t-alice'']" _ _ _ _ _ ?wo]
    by (simp add: activated_alice v auth_alice admin_alice st acl_other)
  have 4: "filter is_log (callback_effects (SetScope_trace env_active server_alice (Some [''t-bob'']) ?own)) = []"
    using B [of _ _ _ _ _ ?own] by simp
  have 5: "filter is_log (outside_effects (SetScope_trace env_active server_alice (Some [''t-bob'']) ?own))
      = [Log_request, Log_response InfoLevel]"
    using B [of _ _ _ _ _ ?own] by (simp add: ok LogReq_def LogResp_def)
  have 6: "filter is_log (outside_effects (SetScope_trace env_active server_fresh None ?own))
      = [Log_request, Log_response DebugLevel]"
    using handler_effects [of env_active server_fresh None _ _ _ _ _ ?own]
    by (simp add: na LogReq_def LogResp_def IsNotActivatedError_def)
  have 7: "callback_effects (Activate_trace env_active server_fresh None \<lparr>act_Admins = [''alice'']\<rparr>) = []"
    using handler_effects [of env_active server_fresh None "\<lparr>act_Admins = [''alice'']\<rparr>"] by simp
  have 8: "filter is_log (outside_effects (Activate_trace env_active server_fresh None \<lparr>act_Admins = [''alice'']\<rparr>))
      = [Log_request, Log_response InfoLevel]"
    using handler_effects [of env_active server_fresh None "\<lparr>act_Admins = [''alice'']\<rparr>"]
    by (simp add: act LogReq_def LogResp_def)
  from 1 2 3 4 5 6 7 8 show ?thesis by blast
qed

subsection \<open>Pipeline master\<close>

text \<open>
  Both orchestrator calls are guarded by a test of the outer \<open>err\<close>, which is nil
  when the loop starts and is never assigned in it: the loop makes no call at all.
\<close>

lemma master_loop_calls:
  "snd (master_loop tr k None evs calls) = calls"
  by (induction evs) (auto split: option.splits EventType.splits sum.splits prod.splits)

lemma master_attempt_no_calls: "snd (master_attempt tr k w) = []"
  by (simp add: master_attempt_def master_loop_calls split: sum.splits)

text \<open>
  C2. The watch delivers a put event for the pipeline \<open>p1\<close>, whose record
  deserializes, then a delete event for \<open>p1\<close>, and is closed. The master ends with
  the "closed unexpectedly" error and has called the orchestrator neither to upsert nor
  to delete the workers of \<open>p1\<close>.
\<close>

theorem master_put_delete_no_calls:
  "master_attempt translate_first k8s_ok (Inr [ev_put, ev_delete]) =
     (Some (Errorf ''pipelineWatcher closed unexpectedly''), [])"
  by (simp add: master_attempt_def ev_put_def ev_delete_def)

subsection \<open>Connection pool\<close>

lemma Do_select_chosen:
  "Do_select dial cs conn h = Inr (Some q, h') \<Longrightarrow>
   (\<forall>b. conn = Some b \<longrightarrow> cc (h b) \<noteq> None) \<Longrightarrow>
     cc (h' q) \<noteq> None \<and> (\<forall>x. count (h' x) = count (h x)) \<and> (q \<in> snd ` set cs \<or> conn = Some q)"
proof (induction cs arbitrary: conn)
  case Nil
  then show ?case by simp
next
  case (Cons a cs)
  obtain addr mapConn where a: "a = (addr, mapConn)" by (cases a)
  show ?case
  proof (cases "cc (h mapConn)")
    case None
    with Cons.prems a show ?thesis
      by (auto split: sum.splits)
  next
    case (Some c)
    show ?thesis
    proof (cases conn)
      case None
      with Some a Cons.prems have "Do_select dial cs (Some mapConn) h = Inr (Some q, h')" by simp
      from Cons.IH [OF this] Some a show ?thesis by auto
    next
      case (Some best)
      show ?thesis
      proof (cases "sint (count (h mapConn)) < sint (count (h best))")
        case True
        with Some \<open>cc (h mapConn) = Some c\<close> a Cons.prems
        have "Do_select dial cs (Some mapConn) h = Inr (Some q, h')" by simp
        from Cons.IH [OF this] \<open>cc (h mapConn) = Some c\<close> a show ?thesis by auto
      next
        case False
        with Some \<open>cc (h mapConn) = Some c\<close> a Cons.prems
        have "Do_select dial cs conn h = Inr (Some q, h')" by simp
        from Cons.IH [OF this] Cons.prems(2) a show ?thesis by auto
      qed
    qed
  qed
qed

lemma Do_select_counts:
  "Do_select dial cs conn h = Inr (r, h') \<Longrightarrow> count (h' x) = count (h x)"
  by (induction cs arbitrary: conn) (auto split: sum.splits option.splits if_splits)

text \<open>
  C7. Whenever \<open>Do\<close> calls \<open>f\<close>, the argument is the connection of the chosen
  entry and is not nil; the chosen entry is one of the map; when \<open>f\<close> is called the
  entry's count is one more than before \<open>Do\<close>, and when \<open>Do\<close> is left it is
  what it was before; no other count changes. This holds for every \<open>f\<close>, whether
  it returns nil, returns an error or panics. With an empty map \<open>Do\<close> fails with
  "no endpoints found" and \<open>f\<close> is not called; a \<open>Do\<close> that does not call \<open>f\<close>
  changes no count.
\<close>

theorem Do_spec:
  "(\<forall>conn arg p1 r p2. Do dial f p = (Do_called conn arg p1 r, p2) \<longrightarrow>
      arg \<noteq> None \<and> arg = cc (heap p1 conn) \<and> r = f arg \<and> conn \<in> snd ` set (conns p)
    \<and> count (heap p1 conn) = count (heap p conn) + 1
    \<and> count (heap p2 conn) = count (heap p conn)
    \<and> (\<forall>x. x \<noteq> conn \<longrightarrow> count (heap p1 x) = count (heap p x) \<and> count (heap p2 x) = count (heap p x)))
 \<and> (conns p = [] \<longrightarrow> Do dial f p = (Do_not_called ''no endpoints found'', p))
 \<and> (\<forall>err p2. Do dial f p = (Do_not_called err, p2) \<longrightarrow> (\<forall>x. count (heap p2 x) = count (heap p x)))"
proof (intro conjI allI impI)
  fix conn arg p1 r p2
  assume run: "Do dial f p = (Do_called conn arg p1 r, p2)"
  then obtain h where sel: "Do_select dial (conns p) None (heap p) = Inr (Some conn, h)"
    by (auto simp: Do_def Let_def split: sum.splits option.splits prod.splits)
  from Do_select_chosen [OF sel] have ch: "cc (h conn) \<noteq> None" "\<forall>x. count (h x) = count (heap p x)"
    "conn \<in> snd ` set (conns p)" by auto
  from run sel have p1: "p1 = p\<lparr>heap := h(conn := (h conn)\<lparr>count := count (h conn) + 1\<rparr>)\<rparr>"
    and arg: "arg = cc (h conn)" and r: "r = f arg"
    and p2: "p2 = p\<lparr>heap := h(conn := (h conn)\<lparr>count := count (h conn) + 1 - 1\<rparr>)\<rparr>"
    by (auto simp: Do_def Let_def)
  show "arg \<noteq> None" using arg ch by simp
  show "arg = cc (heap p1 conn)" using arg p1 by simp
  show "r = f arg" by (rule r)
  show "conn \<in> snd ` set (conns p)" by (rule ch)
  show "count (heap p1 conn) = count (heap p conn) + 1" using p1 ch by simp
  show "count (heap p2 conn) = count (heap p conn)" using p2 ch by simp
  show "\<And>x. x \<noteq> conn \<Longrightarrow> count (heap p1 x) = count (heap p x)" using p1 ch by simp
  show "\<And>x. x \<noteq> conn \<Longrightarrow> count (heap p2 x) = count (heap p x)" using p2 ch by simp
next
  assume "conns p = []"
  then show "Do dial f p = (Do_not_called ''no endpoints found'', p)" by (simp add: Do_def)
next
  fix err p2 x
  assume "Do dial f p = (Do_not_called err, p2)"
  then show "count (heap p2 x) = count (heap p x)"
    by (auto simp: Do_def Let_def Do_select_counts split: sum.splits option.splits prod.splits)
qed

theorem Do_spec_witness:
  "run_conn (fst (Do dial_ok f_panics pool_two)) = 11
 \<and> run_arg (fst (Do dial_ok f_panics pool_two)) = Some 6
 \<and> run_result (fst (Do dial_ok f_panics pool_two)) = Panics ''boom''
 \<and> count (heap (run_pool (fst (Do dial_ok f_panics pool_two))) 11) = 2
 \<and> count (heap (snd (Do dial_ok f_panics pool_two)) 11) = 1
 \<and> run_result (fst (Do dial_ok f_fails pool_two)) = Returns (Some ''rpc failed'')
 \<and> count (heap (run_pool (fst (Do dial_ok f_fails pool_two))) 11) = 2
 \<and> count (heap (snd (Do dial_ok f_fails pool_two)) 11) = 1
 \<and> Do dial_ok f_panics pool_empty = (Do_not_called ''no endpoints found'', pool_empty)"
proof -
  have sel: "Do_select dial_ok (conns pool_two) None (heap pool_two) = Inr (Some 11, heap pool_two)"
    by (simp add: pool_two_def)
  have c1: "count (heap pool_two 11) = 1" "cc (heap pool_two 11) = Some 6"
    by (simp_all add: pool_two_def)
  have facts: "run_conn (fst (Do dial_ok f pool_two)) = 11
      \<and> run_arg (fst (Do dial_ok f pool_two)) = Some 6
      \<and> run_result (fst (Do dial_ok f pool_two)) = f (Some 6)
      \<and> count (heap (run_pool (fst (Do dial_ok f pool_two))) 11) = 2
      \<and> count (heap (snd (Do dial_ok f pool_two)) 11) = 1" for f
  proof -
    obtain p1 p2 where run: "Do dial_ok f pool_two = (Do_called 11 (Some 6) p1 (f (Some 6)), p2)"
      by (simp add: Do_def sel Let_def c1)
    from Do_spec [of dial_ok f pool_two] run
    have "count (heap p1 11) = count (heap pool_two 11) + 1" "count (heap p2 11) = count (heap pool_two 11)"
      by blast+
    with run c1 show ?thesis by simp
  qed
  have e: "Do dial_ok f_panics pool_empty = (Do_not_called ''no endpoints found'', pool_empty)"
    using Do_spec [of dial_ok f_panics pool_empty] by (simp add: pool_empty_def)
  from facts [of f_panics] facts [of f_fails] e show ?thesis
    by (simp add: f_panics_def f_fails_def)
qed

end
